theory Spec2Isabelle
  imports Complex_Main
begin

section \<open>ONNX placeholder functions (brevitas/onnx/finn/function/act.py)\<close>

subsection \<open>The graph under construction\<close>

text \<open>
  The first argument \<open>g\<close> of a \<open>symbolic\<close> method is the ONNX graph under
  construction. \<open>g.op(name, *args, **kwargs)\<close> appends one node to it and returns the
  handle of the node's output. A graph is the list of its nodes in the order of their
  creation; a value handle is either a value that exists outside the nodes of the graph
  (\<open>Ext\<close>) or the output of the node at an index (\<open>Out\<close>). The keyword arguments of
  \<open>g.op\<close> are kept under the names the source writes (\<open>domain_s\<close>, \<open>out_dtype_s\<close>,
  \<open>out_scale_f\<close>, \<open>out_bias_f\<close>), in the order the source writes them; the float
  literals \<open>2.0\<close> and \<open>-1.0\<close> are the real numbers they denote.
\<close>

datatype attr = AttrS string | AttrF real

datatype val = Ext string | Out nat

record node =
  op_type :: string
  inputs :: "val list"
  attrs :: "(string \<times> attr) list"

type_synonym graph = "node list"

definition g_op :: "graph \<Rightarrow> string \<Rightarrow> val list \<Rightarrow> (string \<times> attr) list \<Rightarrow> graph \<times> val" where
  "g_op g name args kwargs =
     (g @ [\<lparr>op_type = name, inputs = args, attrs = kwargs\<rparr>], Out (length g))"

subsection \<open>QuantHardTanhPlaceholderFunction\<close>

text \<open>
  \<open>bias\<close> and \<open>scale\<close> are \<open>None\<close> or a value handle. The \<open>else\<close> branch rebinds
  \<open>ret\<close> twice; each rebinding is one step of the state passing below.
\<close>

definition QuantHardTanhPlaceholderFunction_symbolic ::
  "graph \<Rightarrow> val \<Rightarrow> string \<Rightarrow> val \<Rightarrow> val option \<Rightarrow> val option \<Rightarrow> graph \<times> val" where
  "QuantHardTanhPlaceholderFunction_symbolic g input qnt_type thres bias scale =
     (if qnt_type = ''BIPOLAR'' then
        g_op g ''MultiThreshold'' [input, thres]
          [(''domain_s'', AttrS ''finn''), (''out_dtype_s'', AttrS qnt_type),
           (''out_scale_f'', AttrF 2.0), (''out_bias_f'', AttrF (- 1.0))]
      else
        (let (g1, ret1) = g_op g ''MultiThreshold'' [input, thres]
                            [(''domain_s'', AttrS ''finn''), (''out_dtype_s'', AttrS qnt_type)];
             (g2, ret2) = (case bias of None \<Rightarrow> (g1, ret1)
                           | Some b \<Rightarrow> g_op g1 ''Add'' [ret1, b] []);
             (g3, ret3) = (case scale of None \<Rightarrow> (g2, ret2)
                           | Some s \<Rightarrow> g_op g2 ''Mul'' [ret2, s] [])
         in (g3, ret3)))"

text \<open>
  A tensor is the list of its elements. \<open>Tensor.clamp(min, max)\<close> bounds every element
  from below by \<open>min\<close> and from above by \<open>max\<close>, each when it is given;
  \<open>input.clamp(0)\<close> gives \<open>min = 0\<close> and no \<open>max\<close>. Elements are real numbers:
  not-a-number elements are outside the model.
\<close>

definition tensor_clamp :: "real option \<Rightarrow> real option \<Rightarrow> real list \<Rightarrow> real list" where
  "tensor_clamp lo hi t =
     map (\<lambda>x. let y = (case lo of None \<Rightarrow> x | Some l \<Rightarrow> max l x)
              in (case hi of None \<Rightarrow> y | Some h \<Rightarrow> min h y)) t"

definition QuantHardTanhPlaceholderFunction_forward ::
  "real list \<Rightarrow> string \<Rightarrow> real list \<Rightarrow> real list option \<Rightarrow> real list option \<Rightarrow> real list" where
  "QuantHardTanhPlaceholderFunction_forward input qnt_type thres bias scale =
     tensor_clamp (Some 0) None input"

subsection \<open>QuantReLUPlaceholderFunction\<close>

definition QuantReLUPlaceholderFunction_symbolic ::
  "graph \<Rightarrow> val \<Rightarrow> string \<Rightarrow> val \<Rightarrow> val option \<Rightarrow> val option \<Rightarrow> graph \<times> val" where
  "QuantReLUPlaceholderFunction_symbolic g input qnt_type thres bias scale =
     (let (g1, ret1) = g_op g ''MultiThreshold'' [input, thres]
                         [(''domain_s'', AttrS ''finn''), (''out_dtype_s'', AttrS qnt_type)];
          (g2, ret2) = (case scale of None \<Rightarrow> (g1, ret1)
                        | Some s \<Rightarrow> g_op g1 ''Mul'' [ret1, s] [])
      in (g2, ret2))"

definition QuantReLUPlaceholderFunction_forward ::
  "real list \<Rightarrow> string \<Rightarrow> real list \<Rightarrow> real list option \<Rightarrow> real list option \<Rightarrow> real list" where
  "QuantReLUPlaceholderFunction_forward input qnt_type thres bias scale =
     tensor_clamp (Some 0) None input"

subsection \<open>Reading a graph\<close>

text \<open>
  The nodes a call has added to a graph of \<open>n\<close> nodes, and the shape of a node:
  its operator, its inputs and the (first) value of an attribute.
\<close>

definition emitted :: "nat \<Rightarrow> graph \<Rightarrow> node list" where
  "emitted n g = drop n g"

definition attr_of :: "node \<Rightarrow> string \<Rightarrow> attr option" where
  "attr_of nd k = map_of (attrs nd) k"

definition is_multithreshold :: "node \<Rightarrow> val \<Rightarrow> val \<Rightarrow> string \<Rightarrow> bool" where
  "is_multithreshold nd input thres qnt_type =
     (op_type nd = ''MultiThreshold'' \<and> inputs nd = [input, thres] \<and>
      attr_of nd ''domain_s'' = Some (AttrS ''finn'') \<and>
      attr_of nd ''out_dtype_s'' = Some (AttrS qnt_type))"

definition is_binary :: "node \<Rightarrow> string \<Rightarrow> val \<Rightarrow> val \<Rightarrow> bool" where
  "is_binary nd name a b = (op_type nd = name \<and> inputs nd = [a, b] \<and> attrs nd = [])"

section \<open>The training script (brevitas_examples/bnn_pynq/trainer.py)\<close>

subsection \<open>Exceptions\<close>

text \<open>
  Every exception the modelled code raises is a value. \<open>Exception\<close> carries the
  message of a \<open>raise Exception(...)\<close> of the source, \<open>KeyError\<close>,
  \<open>NameError\<close> and \<open>AttributeError\<close> the name that was looked up, and
  \<open>External\<close> stands for an exception raised inside a library call.
\<close>

datatype error =
    ValueError
  | ZeroDivisionError
  | RuntimeError
  | TypeError
  | AssertionError
  | FileNotFoundError string
  | KeyError string
  | NameError string
  | AttributeError string
  | Exception string
  | External string

subsection \<open>Tensor primitives used by accuracy\<close>

text \<open>
  \<open>output\<close> is a two-dimensional tensor of shape \<open>(n, dim1)\<close>: the list of its
  \<open>n\<close> rows, with the size of dimension 1 kept beside it (an empty batch still has
  one). Scores are real numbers; not-a-number scores and rounding are outside the model.
  \<open>target\<close> is a one-dimensional integer tensor, the list of its labels.
\<close>

record tensor2d =
  dim1 :: nat
  rows :: "real list list"

definition well_formed :: "tensor2d \<Rightarrow> bool" where
  "well_formed t = list_all (\<lambda>r. length r = dim1 t) (rows t)"

text \<open>
  \<open>Tensor.topk(k, 1, True, True)\<close> returns, for every row, the indices of its \<open>k\<close>
  largest elements, largest first; it raises when \<open>k\<close> is negative or greater than
  the size of the dimension. The library leaves the order of equal elements open; here
  the smaller index comes first.
\<close>

fun insert_desc :: "real \<times> nat \<Rightarrow> (real \<times> nat) list \<Rightarrow> (real \<times> nat) list" where
  "insert_desc p [] = [p]"
| "insert_desc p (q # qs) = (if fst p < fst q then q # insert_desc p qs else p # q # qs)"

definition argsort_desc :: "real list \<Rightarrow> nat list" where
  "argsort_desc row = map snd (foldr insert_desc (zip row [0..<length row]) [])"

definition topk_row :: "nat \<Rightarrow> real list \<Rightarrow> nat list" where
  "topk_row k row = take k (argsort_desc row)"

definition tensor_topk :: "tensor2d \<Rightarrow> int \<Rightarrow> error + nat list list" where
  "tensor_topk t k =
     (if k < 0 \<or> int (dim1 t) < k then Inl RuntimeError
      else Inr (map (topk_row (nat k)) (rows t)))"

text \<open>
  \<open>pred.t()\<close> of a tensor of shape \<open>(n, m)\<close>, given as its rows, has shape
  \<open>(m, n)\<close>.
\<close>

definition tensor_t :: "nat \<Rightarrow> 'a list list \<Rightarrow> 'a list list" where
  "tensor_t m rs = map (\<lambda>i. map (\<lambda>r. r ! i) rs) [0..<m]"

text \<open>
  \<open>target.view(1, -1).expand_as(pred)\<close> with \<open>pred\<close> of shape \<open>(m, n)\<close>: the row
  of labels is repeated \<open>m\<close> times; a single label is also repeated along the row;
  any other length raises.
\<close>

definition expand_as :: "int list \<Rightarrow> nat \<Rightarrow> nat \<Rightarrow> error + int list list" where
  "expand_as target m n =
     (if length target = n then Inr (replicate m target)
      else if length target = 1 then Inr (replicate m (replicate n (hd target)))
      else Inl RuntimeError)"

text \<open>The slice \<open>xs[:k]\<close>: a negative \<open>k\<close> counts from the end.\<close>

definition py_slice_to :: "int \<Rightarrow> 'a list \<Rightarrow> 'a list" where
  "py_slice_to k xs =
     (if 0 \<le> k then take (nat k) xs else take (nat (int (length xs) + k)) xs)"

subsection \<open>accuracy\<close>

text \<open>
  The loop over \<open>topk\<close> appends to \<open>res\<close>; \<open>100.0 / batch_size\<close> is evaluated in
  every iteration and raises on an empty batch.
  \<open>correct[:k].flatten().float().sum(0)\<close> is the number of true entries of the
  first rows of \<open>correct\<close>.
\<close>

fun accuracy_loop :: "bool list list \<Rightarrow> nat \<Rightarrow> real list \<Rightarrow> int list \<Rightarrow> error + real list" where
  "accuracy_loop correct batch_size res [] = Inr res"
| "accuracy_loop correct batch_size res (k # ks) =
     (if batch_size = 0 then Inl ZeroDivisionError
      else
        (let correct_k = real (length (filter (\<lambda>b. b) (concat (py_slice_to k correct))))
         in accuracy_loop correct batch_size
              (res @ [correct_k * (100 / real batch_size)]) ks))"

definition accuracy :: "tensor2d \<Rightarrow> int list \<Rightarrow> int list \<Rightarrow> error + real list" where
  "accuracy output target topk =
     (case topk of
        [] \<Rightarrow> Inl ValueError
      | k0 # ks \<Rightarrow>
          (let maxk = fold max ks k0;
               batch_size = length target
           in case tensor_topk output maxk of
                Inl e \<Rightarrow> Inl e
              | Inr pred \<Rightarrow>
                  (case expand_as target (nat maxk) (length (rows output)) of
                     Inl e \<Rightarrow> Inl e
                   | Inr tgt \<Rightarrow>
                       (let correct = map2 (map2 (\<lambda>p t. int p = t))
                                        (tensor_t (nat maxk) pred) tgt
                        in accuracy_loop correct batch_size [] topk))))"

text \<open>
  The number of targets whose label is among the \<open>k\<close> largest scores of its row of
  \<open>output\<close>.
\<close>

definition hits :: "nat \<Rightarrow> tensor2d \<Rightarrow> int list \<Rightarrow> nat" where
  "hits k output target =
     length (filter (\<lambda>(row, t). t \<in> set (map int (topk_row k row))) (zip (rows output) target))"

subsection \<open>Paths and small string functions of the standard library\<close>

text \<open>
  \<open>os.path.join\<close> and \<open>os.path.split\<close> as the POSIX flavour of the standard
  library defines them, for two components. \<open>split\<close> cuts after the last slash;
  the head loses its trailing slashes unless it consists of slashes only.
\<close>

definition path_join :: "string \<Rightarrow> string \<Rightarrow> string" where
  "path_join a b =
     (if b \<noteq> [] \<and> hd b = CHR ''/'' then b
      else if a = [] \<or> last a = CHR ''/'' then a @ b
      else a @ ''/'' @ b)"

definition path_split :: "string \<Rightarrow> string \<times> string" where
  "path_split p =
     (let tail = rev (takeWhile (\<lambda>c. c \<noteq> CHR ''/'') (rev p));
          head = rev (dropWhile (\<lambda>c. c \<noteq> CHR ''/'') (rev p))
      in (if head \<noteq> [] \<and> \<not> list_all (\<lambda>c. c = CHR ''/'') head
          then rev (dropWhile (\<lambda>c. c = CHR ''/'') (rev head))
          else head,
          tail))"

text \<open>\<open>s.split(c)\<close> for a one-character separator.\<close>

fun split_on :: "char \<Rightarrow> string \<Rightarrow> string list" where
  "split_on c [] = [[]]"
| "split_on c (x # xs) =
     (if x = c then [] # split_on c xs
      else (case split_on c xs of
              [] \<Rightarrow> [[x]]
            | w # ws \<Rightarrow> (x # w) # ws))"

text \<open>
  \<open>[int(i) for i in s.split(',')]\<close>: the conversion of one piece is the function
  \<open>conv\<close> (\<open>None\<close> where \<open>int\<close> raises); the first piece that does not convert
  raises \<open>ValueError\<close>.
\<close>

fun int_list :: "(string \<Rightarrow> int option) \<Rightarrow> string list \<Rightarrow> error + int list" where
  "int_list conv [] = Inr []"
| "int_list conv (w # ws) =
     (case conv w of
        None \<Rightarrow> Inl ValueError
      | Some i \<Rightarrow> (case int_list conv ws of Inl e \<Rightarrow> Inl e | Inr is \<Rightarrow> Inr (i # is)))"

text \<open>The truth value of \<open>args.resume\<close>: \<open>None\<close> and the empty string are false.\<close>

definition truthy :: "string option \<Rightarrow> bool" where
  "truthy r = (case r of None \<Rightarrow> False | Some p \<Rightarrow> p \<noteq> [])"

subsection \<open>Arguments, checkpoints, environment\<close>

text \<open>
  The fields of \<open>args\<close> that the script reads. A state dictionary (of a network) is a
  list of named parameter tensors. An optimizer is its kind, its learning rate (of
  parameter group 0) and its state; the other hyperparameters are not modelled.
\<close>

record args =
  dataset :: string
  network :: string
  experiments :: string
  resume :: "string option"
  dry_run :: bool
  evaluate :: bool
  epochs :: int
  gpus :: "string option"
  pretrained :: bool
  strict :: bool
  loss :: string
  optim :: string
  scheduler :: string
  milestones :: string
  lr :: real

type_synonym state_dict = "(string \<times> real list) list"

record optimizer_state =
  opt_kind :: string
  opt_lr :: real
  opt_state :: state_dict

text \<open>
  A checkpoint is a dictionary from strings to values: a state dictionary, an
  optimizer state, an integer or a float. It is kept as the list of its items (keys in
  the order of insertion); \<open>map_of\<close> looks a key up.
\<close>

datatype pval = PState state_dict | POptim optimizer_state | PInt int | PFloat real

type_synonym package = "(string \<times> pval) list"

record cfg =
  cfg_dataset :: string
  cfg_num_classes :: int

datatype device = Cpu | Cuda int

datatype criterion = SqrHingeLoss | CrossEntropyLoss

record lr_scheduler =
  sched_milestones :: "int list"
  last_epoch :: int

text \<open>
  What the script does to the world outside it, in order: directories made, datasets
  built (builder name and the \<open>train\<close> flag), checkpoints read and written, state
  dictionaries loaded into the network, the network moved between devices, ONNX files
  exported, and the passes over the data (an evaluation with the epoch and the top-1
  average it returned). Logging, printing and the seeding of the random number
  generators are left out. These calls are taken to return normally.
\<close>

datatype event =
    Mkdir string
  | BuildDataset string bool
  | TorchLoad string
  | LoadStateDict state_dict bool
  | TorchSave string package
  | ModelTo device
  | ExportOnnx string "nat list"
  | TrainEpoch int
  | SchedulerStep int
  | EvalModel int real

text \<open>
  What the script receives from outside its own file:
  \<^item> \<open>now\<close>: the time stamp \<open>datetime.now().strftime('%Y%m%d_%H%M%S')\<close>;
  \<^item> \<open>py_int\<close>: the builtin \<open>int\<close> on a string (\<open>None\<close> where it raises);
  \<^item> \<open>model_with_cfg\<close>: the function of that name of the package \<open>models\<close>, which
    returns a network and its configuration or raises;
  \<^item> \<open>torch_load\<close>: the checkpoint stored at a path, or the exception;
  \<^item> \<open>load_state_dict\<close>: the network after \<open>model.load_state_dict(sd, strict)\<close>,
    or the exception;
  \<^item> \<open>train_batches\<close>: the network and the optimizer after the loop over the training
    batches of an epoch (lines 267 to 318 of the source), or the exception;
  \<^item> \<open>eval_top1\<close>: the value \<open>eval_meters.top1.avg\<close> that \<open>eval_model\<close> returns
    for a network, or the exception.
\<close>

record env =
  now :: string
  py_int :: "string \<Rightarrow> int option"
  model_with_cfg :: "string \<Rightarrow> bool \<Rightarrow> error + (state_dict \<times> cfg)"
  torch_load :: "string \<Rightarrow> error + package"
  load_state_dict :: "state_dict \<Rightarrow> state_dict \<Rightarrow> bool \<Rightarrow> error + state_dict"
  train_batches :: "int \<Rightarrow> state_dict \<Rightarrow> optimizer_state \<Rightarrow> error + (state_dict \<times> optimizer_state)"
  eval_top1 :: "int \<Rightarrow> state_dict \<Rightarrow> error + real"

text \<open>
  The attributes of a \<open>Trainer\<close>. \<open>checkpoints_dir_path\<close> is set only when
  \<open>args.dry_run\<close> is false, and \<open>optimizer\<close> only when \<open>args.optim\<close> is
  \<open>'ADAM'\<close> or \<open>'SGD'\<close>; \<open>self.scheduler\<close> is \<open>self_scheduler\<close> here.
  \<open>trace\<close> is the list of the events so far.
\<close>

record trainer =
  self_args :: args
  output_dir_path :: string
  checkpoints_dir_path :: "string option"
  num_classes :: int
  in_channels :: nat
  starting_epoch :: int
  best_val_acc :: real
  self_device :: device
  model :: state_dict
  self_criterion :: criterion
  optimizer :: "optimizer_state option"
  self_scheduler :: "lr_scheduler option"
  trace :: "event list"

subsection \<open>Trainer.__init__\<close>

text \<open>The \<open>if\<close>/\<open>elif\<close> chain over \<open>args.dataset\<close>: builder, classes, channels.\<close>

definition select_dataset :: "string \<Rightarrow> error + (string \<times> int \<times> nat)" where
  "select_dataset d =
     (if d = ''CIFAR10'' then Inr (''CIFAR10'', 10, 3)
      else if d = ''CIFAR100'' then Inr (''CIFAR100'', 100, 3)
      else if d = ''MNIST'' then Inr (''MNIST'', 10, 1)
      else Inl (Exception (''Dataset not supported: '' @ d)))"

text \<open>
  The \<open>try\<close> block around \<open>model_with_cfg\<close>. Only \<open>AssertionError\<close> is caught.
  The handler reads the name \<open>model_impl_no_wrapper\<close>, which the module neither
  defines nor imports, so the handler ends in \<open>NameError\<close>.
\<close>

definition extract_model :: "args \<Rightarrow> env \<Rightarrow> int \<Rightarrow> error + state_dict" where
  "extract_model a ev nc =
     (case model_with_cfg ev (network a) (pretrained a) of
        Inl e \<Rightarrow>
          (if e = AssertionError then Inl (NameError ''model_impl_no_wrapper'') else Inl e)
      | Inr (m, c) \<Rightarrow>
          (if dataset a \<noteq> cfg_dataset c then Inl (NameError ''model_impl_no_wrapper'')
           else if nc \<noteq> cfg_num_classes c then Inl (NameError ''model_impl_no_wrapper'')
           else Inr m))"

text \<open>
  \<open>args.gpus\<close> is \<open>None\<close> or a comma separated list of numbers; the device is that
  of the first number. \<open>split\<close> never returns an empty list.
\<close>

definition setup_device :: "args \<Rightarrow> env \<Rightarrow> error + (int list option \<times> device)" where
  "setup_device a ev =
     (case gpus a of
        None \<Rightarrow> Inr (None, Cpu)
      | Some s \<Rightarrow>
          (case int_list (py_int ev) (split_on CHR '','' s) of
             Inl e \<Rightarrow> Inl e
           | Inr is \<Rightarrow> Inr (Some is, Cuda (hd is))))"

text \<open>
  Resuming the network: the checkpoint is read and its \<open>'state_dict'\<close> loaded. The
  result is the checkpoint (if any), the network, and the events.
\<close>

definition resume_checkpoint ::
  "args \<Rightarrow> env \<Rightarrow> state_dict \<Rightarrow> event list \<times> (error + (package option \<times> state_dict))" where
  "resume_checkpoint a ev m =
     (case resume a of
        None \<Rightarrow> ([], Inr (None, m))
      | Some p \<Rightarrow>
          (if p = [] then ([], Inr (None, m))
           else
             (case torch_load ev p of
                Inl e \<Rightarrow> ([], Inl e)
              | Inr pkg \<Rightarrow>
                  (case map_of pkg ''state_dict'' of
                     None \<Rightarrow> ([TorchLoad p], Inl (KeyError ''state_dict''))
                   | Some (PState sd) \<Rightarrow>
                       (case load_state_dict ev m sd (strict a) of
                          Inl e \<Rightarrow> ([TorchLoad p], Inl e)
                        | Inr m' \<Rightarrow> ([TorchLoad p, LoadStateDict sd (strict a)], Inr (Some pkg, m')))
                   | Some _ \<Rightarrow> ([TorchLoad p], Inl TypeError)))))"

definition init_criterion :: "args \<Rightarrow> criterion" where
  "init_criterion a = (if loss a = ''SqrHinge'' then SqrHingeLoss else CrossEntropyLoss)"

text \<open>No \<open>else\<close> branch: with another \<open>args.optim\<close> the attribute is never set.\<close>

definition init_optimizer :: "args \<Rightarrow> optimizer_state option" where
  "init_optimizer a =
     (if optim a = ''ADAM'' then Some \<lparr>opt_kind = ''ADAM'', opt_lr = lr a, opt_state = []\<rparr>
      else if optim a = ''SGD'' then Some \<lparr>opt_kind = ''SGD'', opt_lr = lr a, opt_state = []\<rparr>
      else None)"

text \<open>
  Resuming the optimizer, the starting epoch and the best accuracy, each from its key
  when the checkpoint has it. The arguments are the optimizer and the two initial
  values (1 and 0). A value that is not of the kind the attribute holds is reported
  here as \<open>TypeError\<close> (the script would fail at its first use).
\<close>

definition resume_optimizer ::
  "package \<Rightarrow> optimizer_state option \<Rightarrow> int \<Rightarrow> real \<Rightarrow>
   error + (optimizer_state option \<times> int \<times> real)" where
  "resume_optimizer pkg opt se bva =
     (case (case map_of pkg ''optim_dict'' of
              None \<Rightarrow> Inr opt
            | Some v \<Rightarrow>
                (case opt of
                   None \<Rightarrow> Inl (AttributeError ''optimizer'')
                 | Some _ \<Rightarrow> (case v of POptim od \<Rightarrow> Inr (Some od) | _ \<Rightarrow> Inl TypeError))) of
        Inl e \<Rightarrow> Inl e
      | Inr opt' \<Rightarrow>
          (case (case map_of pkg ''epoch'' of
                   None \<Rightarrow> Inr se
                 | Some (PInt e) \<Rightarrow> Inr e
                 | Some _ \<Rightarrow> Inl TypeError) of
             Inl e \<Rightarrow> Inl e
           | Inr se' \<Rightarrow>
               (case map_of pkg ''best_val_acc'' of
                  None \<Rightarrow> Inr (opt', se', bva)
                | Some (PFloat b) \<Rightarrow> Inr (opt', se', b)
                | Some (PInt b) \<Rightarrow> Inr (opt', se', of_int b)
                | Some _ \<Rightarrow> Inl TypeError)))"

text \<open>
  The scheduler: \<open>'STEP'\<close> parses the milestones and needs the optimizer,
  \<open>'FIXED'\<close> has none, anything else raises.
\<close>

definition init_scheduler ::
  "args \<Rightarrow> env \<Rightarrow> optimizer_state option \<Rightarrow> error + lr_scheduler option" where
  "init_scheduler a ev opt =
     (if scheduler a = ''STEP'' then
        (case int_list (py_int ev) (split_on CHR '','' (milestones a)) of
           Inl e \<Rightarrow> Inl e
         | Inr ms \<Rightarrow>
             (case opt of
                None \<Rightarrow> Inl (AttributeError ''optimizer'')
              | Some _ \<Rightarrow> Inr (Some \<lparr>sched_milestones = ms, last_epoch = 0\<rparr>)))
      else if scheduler a = ''FIXED'' then Inr None
      else Inl (Exception (''Unrecognized scheduler '' @ scheduler a)))"

text \<open>Resuming the scheduler reads \<open>package['epoch']\<close> without a test for the key.\<close>

definition resume_scheduler :: "package \<Rightarrow> lr_scheduler option \<Rightarrow> error + lr_scheduler option" where
  "resume_scheduler pkg sch =
     (case sch of
        None \<Rightarrow> Inr None
      | Some s \<Rightarrow>
          (case map_of pkg ''epoch'' of
             None \<Rightarrow> Inl (KeyError ''epoch'')
           | Some (PInt e) \<Rightarrow> Inr (Some (s\<lparr>last_epoch := e - 1\<rparr>))
           | Some _ \<Rightarrow> Inl TypeError))"

text \<open>
  The part of \<open>__init__\<close> after the network is resumed: criterion, optimizer, their
  resumption, the scheduler and its resumption.
\<close>

definition init_optimization ::
  "args \<Rightarrow> env \<Rightarrow> package option \<Rightarrow>
   error + (optimizer_state option \<times> int \<times> real \<times> lr_scheduler option)" where
  "init_optimization a ev package =
     (let opt = init_optimizer a;
          resuming = (truthy (resume a) \<and> \<not> evaluate a)
      in case (case package of
                 Some pkg \<Rightarrow> (if resuming then resume_optimizer pkg opt 1 0 else Inr (opt, 1, 0))
               | None \<Rightarrow> Inr (opt, 1, 0)) of
           Inl e \<Rightarrow> Inl e
         | Inr (opt', se, bva) \<Rightarrow>
             (case init_scheduler a ev opt' of
                Inl e \<Rightarrow> Inl e
              | Inr sch \<Rightarrow>
                  (case (case package of
                           Some pkg \<Rightarrow> (if resuming then resume_scheduler pkg sch else Inr sch)
                         | None \<Rightarrow> Inr sch) of
                     Inl e \<Rightarrow> Inl e
                   | Inr sch' \<Rightarrow> Inr (opt', se, bva, sch'))))"

text \<open>
  \<open>__init__\<close>: the events it has caused, and the trainer or the exception. The moves
  of the network to the device and the wrapping for several devices are left out.
\<close>

definition Trainer_init :: "args \<Rightarrow> env \<Rightarrow> event list \<times> (error + trainer)" where
  "Trainer_init a ev =
     (let experiment_name = dataset a @ ''_'' @ network a @ ''_'' @ now ev;
          out = (case resume a of
                   None \<Rightarrow> path_join (experiments a) experiment_name
                 | Some p \<Rightarrow>
                     (if p = [] then path_join (experiments a) experiment_name
                      else fst (path_split (fst (path_split p)))));
          cdir = (if \<not> dry_run a then Some (path_join out ''checkpoints'') else None);
          ev1 = (if \<not> dry_run a \<and> \<not> truthy (resume a)
                 then [Mkdir out, Mkdir (path_join out ''checkpoints'')] else [])
      in case select_dataset (dataset a) of
           Inl e \<Rightarrow> (ev1, Inl e)
         | Inr (builder, nc, ic) \<Rightarrow>
             (case extract_model a ev nc of
                Inl e \<Rightarrow> (ev1, Inl e)
              | Inr m \<Rightarrow>
                  (let ev2 = ev1 @ [BuildDataset builder True, BuildDataset builder False]
                   in case setup_device a ev of
                        Inl e \<Rightarrow> (ev2, Inl e)
                      | Inr (gs, dev) \<Rightarrow>
                          (case resume_checkpoint a ev m of
                             (ev3, Inl e) \<Rightarrow> (ev2 @ ev3, Inl e)
                           | (ev3, Inr (package, m')) \<Rightarrow>
                               (case init_optimization a ev package of
                                  Inl e \<Rightarrow> (ev2 @ ev3, Inl e)
                                | Inr (opt, se, bva, sch) \<Rightarrow>
                                    (ev2 @ ev3,
                                     Inr \<lparr>self_args = a,
                                          output_dir_path = out,
                                          checkpoints_dir_path = cdir,
                                          num_classes = nc,
                                          in_channels = ic,
                                          starting_epoch = se,
                                          best_val_acc = bva,
                                          self_device = dev,
                                          model = m',
                                          self_criterion = init_criterion a,
                                          optimizer = opt,
                                          self_scheduler = sch,
                                          trace = ev2 @ ev3\<rparr>))))))"

subsection \<open>Checkpoints\<close>

text \<open>
  \<open>quant_export\<close> moves the network to the CPU, exports it to
  \<open>output_dir_path + "/" + model_name + ".onnx"\<close> and moves it back.
\<close>

definition quant_export :: "trainer \<Rightarrow> string \<Rightarrow> string \<Rightarrow> nat list \<Rightarrow> trainer" where
  "quant_export tr dir model_name input_shape =
     tr\<lparr>trace := trace tr @
           [ModelTo Cpu,
            ExportOnnx (dir @ ''/'' @ model_name @ ''.onnx'') input_shape,
            ModelTo (self_device tr)]\<rparr>"

definition checkpoint_best :: "trainer \<Rightarrow> int \<Rightarrow> string \<Rightarrow> error + trainer" where
  "checkpoint_best tr epoch name =
     (case checkpoints_dir_path tr of
        None \<Rightarrow> Inl (AttributeError ''checkpoints_dir_path'')
      | Some d \<Rightarrow>
          (case optimizer tr of
             None \<Rightarrow> Inl (AttributeError ''optimizer'')
           | Some opt \<Rightarrow>
               (let best_path = path_join d name;
                    saved = [(''state_dict'', PState (model tr)),
                             (''optim_dict'', POptim opt),
                             (''epoch'', PInt (epoch + 1)),
                             (''best_val_acc'', PFloat (best_val_acc tr))]
                in Inr (quant_export (tr\<lparr>trace := trace tr @ [TorchSave best_path saved]\<rparr>)
                          d name [1, in_channels tr, 32, 32]))))"

subsection \<open>train_model\<close>

text \<open>
  The end of an epoch (lines 332 to 337 of the source): the checkpoint after the
  evaluation has returned \<open>top1avg\<close>.
\<close>

definition checkpoint_step :: "trainer \<Rightarrow> int \<Rightarrow> real \<Rightarrow> error + trainer" where
  "checkpoint_step tr epoch top1avg =
     (if best_val_acc tr \<le> top1avg \<and> \<not> dry_run (self_args tr) then
        checkpoint_best (tr\<lparr>best_val_acc := top1avg\<rparr>) epoch ''best.tar''
      else if \<not> dry_run (self_args tr) then
        checkpoint_best tr epoch ''checkpoint.tar''
      else Inr tr)"

text \<open>
  The learning rate after the batches of an epoch: the scheduler steps if there is
  one; otherwise the rate is halved at every epoch that is a multiple of 40.
\<close>

definition set_learning_rate :: "trainer \<Rightarrow> int \<Rightarrow> error + trainer" where
  "set_learning_rate tr epoch =
     (case self_scheduler tr of
        Some s \<Rightarrow> Inr (tr\<lparr>trace := trace tr @ [SchedulerStep epoch]\<rparr>)
      | None \<Rightarrow>
          (if epoch mod 40 = 0 then
             (case optimizer tr of
                None \<Rightarrow> Inl (AttributeError ''optimizer'')
              | Some opt \<Rightarrow> Inr (tr\<lparr>optimizer := Some (opt\<lparr>opt_lr := opt_lr opt * 0.5\<rparr>)\<rparr>))
           else Inr tr))"

text \<open>
  The body of the loop over the epochs. The training data is taken to be non-empty:
  the batches need the optimizer.
\<close>

definition train_epoch :: "env \<Rightarrow> int \<Rightarrow> trainer \<Rightarrow> error + trainer" where
  "train_epoch ev epoch tr =
     (case optimizer tr of
        None \<Rightarrow> Inl (AttributeError ''optimizer'')
      | Some opt \<Rightarrow>
          (case train_batches ev epoch (model tr) opt of
             Inl e \<Rightarrow> Inl e
           | Inr (m, opt') \<Rightarrow>
               (case set_learning_rate
                       (tr\<lparr>model := m, optimizer := Some opt',
                           trace := trace tr @ [TrainEpoch epoch]\<rparr>) epoch of
                  Inl e \<Rightarrow> Inl e
                | Inr tr1 \<Rightarrow>
                    (case eval_top1 ev epoch (model tr1) of
                       Inl e \<Rightarrow> Inl e
                     | Inr top1avg \<Rightarrow>
                         checkpoint_step (tr1\<lparr>trace := trace tr1 @ [EvalModel epoch top1avg]\<rparr>)
                           epoch top1avg))))"

fun train_epochs :: "env \<Rightarrow> int list \<Rightarrow> trainer \<Rightarrow> error + trainer" where
  "train_epochs ev [] tr = Inr tr"
| "train_epochs ev (epoch # rest) tr =
     (case train_epoch ev epoch tr of
        Inl e \<Rightarrow> Inl e
      | Inr tr' \<Rightarrow> train_epochs ev rest tr')"

text \<open>\<open>range(a, b)\<close> over the integers.\<close>

definition py_range :: "int \<Rightarrow> int \<Rightarrow> int list" where
  "py_range a b = [a..b - 1]"

text \<open>
  \<open>train_model\<close> returns the trainer after the loop and the value of the
  \<open>return\<close>: the path of \<open>best.tar\<close>, or \<open>None\<close> in a dry run. The switch
  \<open>args.detect_nan\<close>, which only turns on the anomaly detection of the library, is
  left out.
\<close>

definition train_model :: "env \<Rightarrow> trainer \<Rightarrow> error + (trainer \<times> string option)" where
  "train_model ev tr =
     (case train_epochs ev (py_range (starting_epoch tr) (epochs (self_args tr))) tr of
        Inl e \<Rightarrow> Inl e
      | Inr tr' \<Rightarrow>
          (if \<not> dry_run (self_args tr') then
             (case checkpoints_dir_path tr' of
                None \<Rightarrow> Inl (AttributeError ''checkpoints_dir_path'')
              | Some d \<Rightarrow> Inr (tr', Some (path_join d ''best.tar'')))
           else Inr (tr', None)))"

subsection \<open>Reading a trace\<close>

fun saved_paths :: "event list \<Rightarrow> string list" where
  "saved_paths [] = []"
| "saved_paths (TorchSave p d # es) = p # saved_paths es"
| "saved_paths (e # es) = saved_paths es"

fun trained_epochs :: "event list \<Rightarrow> int list" where
  "trained_epochs [] = []"
| "trained_epochs (TrainEpoch n # es) = n # trained_epochs es"
| "trained_epochs (e # es) = trained_epochs es"

fun is_mkdir :: "event \<Rightarrow> bool" where
  "is_mkdir (Mkdir d) = True"
| "is_mkdir e = False"

fun is_build_dataset :: "event \<Rightarrow> bool" where
  "is_build_dataset (BuildDataset b t) = True"
| "is_build_dataset e = False"

text \<open>
  The evaluations and the checkpoints of a trace, in order, and what the description of
  the loop expects them to be for a checkpoint directory \<open>d\<close>, a best accuracy so
  far and the epochs with the top-1 averages of their evaluations: after each evaluation
  one checkpoint, \<open>best.tar\<close> when the average is at least the best so far (which it
  then replaces), \<open>checkpoint.tar\<close> otherwise.
\<close>

datatype mark = Evaluated int real | Saved string

fun marks :: "event list \<Rightarrow> mark list" where
  "marks [] = []"
| "marks (EvalModel e avg # es) = Evaluated e avg # marks es"
| "marks (TorchSave p d # es) = Saved p # marks es"
| "marks (e # es) = marks es"

fun expected_marks :: "string \<Rightarrow> real \<Rightarrow> (int \<times> real) list \<Rightarrow> mark list" where
  "expected_marks d best [] = []"
| "expected_marks d best ((e, avg) # rest) =
     Evaluated e avg #
     Saved (path_join d (if best \<le> avg then ''best.tar'' else ''checkpoint.tar'')) #
     expected_marks d (if best \<le> avg then avg else best) rest"

subsection \<open>A sample run\<close>

text \<open>
  Arguments and an environment for concrete runs: three epochs of MNIST on the CPU with
  a fixed learning rate schedule. The networks \<open>CNV_1W1A\<close> and \<open>CNV_2W2A\<close> are
  configured for CIFAR10 and CIFAR100, any other for MNIST. A full checkpoint is stored
  at \<open>exp/run/checkpoints/best.tar\<close> and one with the network only at
  \<open>exp/run/checkpoints/net.tar\<close>; the evaluation gives 50, then 40.
\<close>

definition example_args :: args where
  "example_args =
     \<lparr>dataset = ''MNIST'', network = ''LFC_1W1A'', experiments = ''exp'', resume = None,
      dry_run = False, evaluate = False, epochs = 3, gpus = None, pretrained = False,
      strict = True, loss = ''SqrHinge'', optim = ''ADAM'', scheduler = ''FIXED'',
      milestones = ''100,150'', lr = 0.02\<rparr>"

definition example_env :: env where
  "example_env =
     \<lparr>now = ''20200101_000000'',
      py_int = (\<lambda>s. if s = ''100'' then Some 100 else if s = ''150'' then Some 150 else None),
      model_with_cfg =
        (\<lambda>n p. if n = ''CNV_1W1A''
               then Inr ([(''w'', [1, - 1])], \<lparr>cfg_dataset = ''CIFAR10'', cfg_num_classes = 10\<rparr>)
               else if n = ''CNV_2W2A''
               then Inr ([(''w'', [1, - 1])], \<lparr>cfg_dataset = ''CIFAR100'', cfg_num_classes = 100\<rparr>)
               else Inr ([(''w'', [1, - 1])], \<lparr>cfg_dataset = ''MNIST'', cfg_num_classes = 10\<rparr>)),
      torch_load =
        (\<lambda>p. if p = ''exp/run/checkpoints/best.tar''
             then Inr [(''state_dict'', PState [(''w'', [1, 1])]),
                       (''optim_dict'',
                        POptim \<lparr>opt_kind = ''ADAM'', opt_lr = 0.01, opt_state = [(''m'', [0.5])]\<rparr>),
                       (''epoch'', PInt 2), (''best_val_acc'', PFloat 90)]
             else if p = ''exp/run/checkpoints/net.tar''
             then Inr [(''state_dict'', PState [(''w'', [1, 1])])]
             else Inl (FileNotFoundError p)),
      load_state_dict = (\<lambda>m sd s. Inr sd),
      train_batches = (\<lambda>e m opt. Inr (m, opt)),
      eval_top1 = (\<lambda>e m. Inr (if e = 1 then 50 else 40))\<rparr>"

definition example_trainer :: trainer where
  "example_trainer =
     \<lparr>self_args = example_args,
      output_dir_path = ''exp/run'',
      checkpoints_dir_path = Some ''exp/run/checkpoints'',
      num_classes = 10,
      in_channels = 1,
      starting_epoch = 1,
      best_val_acc = 0,
      self_device = Cpu,
      model = [(''w'', [1, - 1])],
      self_criterion = SqrHingeLoss,
      optimizer = Some \<lparr>opt_kind = ''ADAM'', opt_lr = 0.02, opt_state = []\<rparr>,
      self_scheduler = None,
      trace = []\<rparr>"

text \<open>
  The trainer that \<open>__init__\<close> builds for the same arguments in a dry run: no
  directory is made and \<open>checkpoints_dir_path\<close> is not set.
\<close>

definition example_dry_trainer :: trainer where
  "example_dry_trainer =
     example_trainer
       \<lparr>self_args := example_args\<lparr>dry_run := True\<rparr>,
        output_dir_path := ''exp/MNIST_LFC_1W1A_20200101_000000'',
        checkpoints_dir_path := None,
        trace := [BuildDataset ''MNIST'' True, BuildDataset ''MNIST'' False]\<rparr>"

section \<open>Properties of the placeholder functions\<close>

text \<open>
  Claim C1. With \<open>qnt_type = "BIPOLAR"\<close> the hard-tanh \<open>symbolic\<close> adds one
  \<open>MultiThreshold\<close> node over \<open>input\<close> and \<open>thres\<close>, in domain \<open>finn\<close>, with
  \<open>out_dtype\<close> the \<open>qnt_type\<close>, \<open>out_scale\<close> 2.0 and \<open>out_bias\<close> -1.0, and returns its
  output whatever \<open>bias\<close> and \<open>scale\<close> are. With any other \<open>qnt_type\<close> it adds a
  \<open>MultiThreshold\<close> node in domain \<open>finn\<close> with \<open>out_dtype\<close> the \<open>qnt_type\<close>, then
  an \<open>Add\<close> of \<open>bias\<close> exactly when \<open>bias\<close> is not \<open>None\<close>, then a \<open>Mul\<close> by
  \<open>scale\<close> exactly when \<open>scale\<close> is not \<open>None\<close>, each fed by the node before it, and
  returns the output of the last node. The nodes already in the graph are kept.
\<close>

theorem hardtanh_symbolic_nodes:
  "QuantHardTanhPlaceholderFunction_symbolic g input qnt_type thres bias scale = (g', r) \<Longrightarrow>
   take (length g) g' = g \<and>
   (qnt_type = ''BIPOLAR'' \<longrightarrow>
      (\<exists>nd. emitted (length g) g' = [nd] \<and> r = Out (length g) \<and>
            is_multithreshold nd input thres qnt_type \<and>
            attr_of nd ''out_scale_f'' = Some (AttrF 2) \<and>
            attr_of nd ''out_bias_f'' = Some (AttrF (- 1))) \<and>
      QuantHardTanhPlaceholderFunction_symbolic g input qnt_type thres bias' scale' = (g', r)) \<and>
   (qnt_type \<noteq> ''BIPOLAR'' \<longrightarrow>
      (\<exists>mt. is_multithreshold mt input thres qnt_type \<and>
            attr_of mt ''out_scale_f'' = None \<and> attr_of mt ''out_bias_f'' = None \<and>
            emitted (length g) g' =
              mt # (case bias of None \<Rightarrow> []
                    | Some b \<Rightarrow> [\<lparr>op_type = ''Add'', inputs = [Out (length g), b], attrs = []\<rparr>])
                 @ (case scale of None \<Rightarrow> []
                    | Some s \<Rightarrow> [\<lparr>op_type = ''Mul'',
                                 inputs = [Out (length g + (if bias = None then 0 else 1)), s],
                                 attrs = []\<rparr>])) \<and>
      r = Out (length g' - 1) \<and>
      map op_type (emitted (length g) g') =
        ''MultiThreshold'' # (if bias \<noteq> None then [''Add''] else [])
                           @ (if scale \<noteq> None then [''Mul''] else []))"
  by (auto simp: QuantHardTanhPlaceholderFunction_symbolic_def g_op_def emitted_def
      is_multithreshold_def attr_of_def split: option.splits if_splits)

theorem hardtanh_symbolic_nodes_witness:
  "map op_type (emitted 0 (fst (QuantHardTanhPlaceholderFunction_symbolic
       [] (Ext ''x'') ''INT2'' (Ext ''t'') (Some (Ext ''b'')) (Some (Ext ''s''))))) =
     [''MultiThreshold'', ''Add'', ''Mul''] \<and>
   snd (QuantHardTanhPlaceholderFunction_symbolic
       [] (Ext ''x'') ''INT2'' (Ext ''t'') (Some (Ext ''b'')) (Some (Ext ''s''))) = Out 2 \<and>
   QuantHardTanhPlaceholderFunction_symbolic
       [] (Ext ''x'') ''BIPOLAR'' (Ext ''t'') (Some (Ext ''b'')) (Some (Ext ''s'')) =
   QuantHardTanhPlaceholderFunction_symbolic [] (Ext ''x'') ''BIPOLAR'' (Ext ''t'') None None"
proof -
  obtain g1 r1 where c1: "QuantHardTanhPlaceholderFunction_symbolic
       [] (Ext ''x'') ''INT2'' (Ext ''t'') (Some (Ext ''b'')) (Some (Ext ''s'')) = (g1, r1)"
    by (cases "QuantHardTanhPlaceholderFunction_symbolic
       [] (Ext ''x'') ''INT2'' (Ext ''t'') (Some (Ext ''b'')) (Some (Ext ''s''))")
  obtain g2 r2 where c2: "QuantHardTanhPlaceholderFunction_symbolic
       [] (Ext ''x'') ''BIPOLAR'' (Ext ''t'') (Some (Ext ''b'')) (Some (Ext ''s'')) = (g2, r2)"
    by (cases "QuantHardTanhPlaceholderFunction_symbolic
       [] (Ext ''x'') ''BIPOLAR'' (Ext ''t'') (Some (Ext ''b'')) (Some (Ext ''s''))")
  have n1: "length g1 = 3"
    using c1 by (simp add: QuantHardTanhPlaceholderFunction_symbolic_def g_op_def) auto
  from hardtanh_symbolic_nodes [OF c1] hardtanh_symbolic_nodes [OF c2, of None None] c1 c2 n1
  show ?thesis by simp
qed

text \<open>
  Claim C2. The ReLU \<open>symbolic\<close> adds a \<open>MultiThreshold\<close> node over \<open>input\<close> and
  \<open>thres\<close>, in domain \<open>finn\<close>, with \<open>out_dtype\<close> the \<open>qnt_type\<close>, then a \<open>Mul\<close> of
  its output by \<open>scale\<close> exactly when \<open>scale\<close> is not \<open>None\<close>, and returns the output
  of the last node.
\<close>

theorem relu_symbolic_nodes:
  "QuantReLUPlaceholderFunction_symbolic g input qnt_type thres bias scale = (g', r) \<Longrightarrow>
   take (length g) g' = g \<and>
   (\<exists>mt. is_multithreshold mt input thres qnt_type \<and>
         emitted (length g) g' =
           mt # (case scale of None \<Rightarrow> []
                 | Some s \<Rightarrow> [\<lparr>op_type = ''Mul'', inputs = [Out (length g), s], attrs = []\<rparr>])) \<and>
   r = Out (length g' - 1) \<and>
   map op_type (emitted (length g) g') =
     ''MultiThreshold'' # (if scale \<noteq> None then [''Mul''] else [])"
  by (auto simp: QuantReLUPlaceholderFunction_symbolic_def g_op_def emitted_def
      is_multithreshold_def attr_of_def split: option.splits)

theorem relu_symbolic_nodes_witness:
  "map op_type (emitted 0 (fst (QuantReLUPlaceholderFunction_symbolic
       [] (Ext ''x'') ''UINT4'' (Ext ''t'') None (Some (Ext ''s''))))) =
     [''MultiThreshold'', ''Mul''] \<and>
   snd (QuantReLUPlaceholderFunction_symbolic
       [] (Ext ''x'') ''UINT4'' (Ext ''t'') None (Some (Ext ''s''))) = Out 1"
proof -
  obtain g1 r1 where c1: "QuantReLUPlaceholderFunction_symbolic
       [] (Ext ''x'') ''UINT4'' (Ext ''t'') None (Some (Ext ''s'')) = (g1, r1)"
    by (cases "QuantReLUPlaceholderFunction_symbolic
       [] (Ext ''x'') ''UINT4'' (Ext ''t'') None (Some (Ext ''s''))")
  have n1: "length g1 = 2"
    using c1 by (simp add: QuantReLUPlaceholderFunction_symbolic_def g_op_def) auto
  from relu_symbolic_nodes [OF c1] c1 n1 show ?thesis by simp
qed

text \<open>
  Claim C8. Both \<open>forward\<close> methods return \<open>input.clamp(0)\<close>: the result does not
  depend on \<open>qnt_type\<close>, \<open>thres\<close>, \<open>bias\<close> or \<open>scale\<close>, every element is the
  maximum of 0 and the input's element, and there is no upper clamp: an element that
  is not negative is returned as it is, however large.
\<close>

theorem forward_is_clamp_at_zero:
  "QuantHardTanhPlaceholderFunction_forward input qnt_type thres bias scale =
     tensor_clamp (Some 0) None input \<and>
   QuantReLUPlaceholderFunction_forward input qnt_type thres bias scale =
     tensor_clamp (Some 0) None input \<and>
   QuantHardTanhPlaceholderFunction_forward input qnt_type' thres' bias' scale' =
     QuantHardTanhPlaceholderFunction_forward input qnt_type thres bias scale \<and>
   QuantReLUPlaceholderFunction_forward input qnt_type' thres' bias' scale' =
     QuantReLUPlaceholderFunction_forward input qnt_type thres bias scale \<and>
   length (QuantHardTanhPlaceholderFunction_forward input qnt_type thres bias scale) =
     length input \<and>
   (\<forall>i < length input.
      QuantHardTanhPlaceholderFunction_forward input qnt_type thres bias scale ! i =
        max 0 (input ! i) \<and>
      (0 \<le> input ! i \<longrightarrow>
         QuantHardTanhPlaceholderFunction_forward input qnt_type thres bias scale ! i =
           input ! i))"
  by (simp add: QuantHardTanhPlaceholderFunction_forward_def
      QuantReLUPlaceholderFunction_forward_def tensor_clamp_def)

theorem forward_is_clamp_at_zero_witness:
  "QuantHardTanhPlaceholderFunction_forward [- 3, 0.5, 7] ''BIPOLAR'' [0] None (Some [2]) =
     [0, 0.5, 7] \<and>
   QuantReLUPlaceholderFunction_forward [- 3, 0.5, 7] ''UINT4'' [1, 2] (Some [1]) None =
     [0, 0.5, 7] \<and>
   (1::nat) < length [- 3, 0.5, 7 :: real] \<and> (0::real) \<le> [- 3, 0.5, 7] ! 2 \<and>
   QuantHardTanhPlaceholderFunction_forward [- 3, 0.5, 7] ''BIPOLAR'' [0] None (Some [2]) ! 2 = 7"
  using forward_is_clamp_at_zero [of "[- 3, 0.5, 7]" "''BIPOLAR''" "[0]" None "Some [2]"
      "''UINT4''" "[1, 2]" "Some [1]" None]
  by (simp add: tensor_clamp_def QuantReLUPlaceholderFunction_forward_def)

text \<open>
  Claim C9. The ReLU \<open>symbolic\<close> never adds an \<open>Add\<close> node and its result does not
  depend on \<open>bias\<close>; the hard-tanh \<open>symbolic\<close>, when \<open>qnt_type\<close> is not
  \<open>"BIPOLAR"\<close> and \<open>bias\<close> is not \<open>None\<close>, adds an \<open>Add\<close> of the
  \<open>MultiThreshold\<close> output and \<open>bias\<close>.
\<close>

theorem relu_symbolic_ignores_bias:
  "QuantReLUPlaceholderFunction_symbolic g input qnt_type thres bias scale = (g', r) \<Longrightarrow>
   (\<forall>nd \<in> set (emitted (length g) g'). op_type nd \<noteq> ''Add'') \<and>
   QuantReLUPlaceholderFunction_symbolic g input qnt_type thres bias' scale = (g', r) \<and>
   (qnt_type \<noteq> ''BIPOLAR'' \<longrightarrow> bias = Some b \<longrightarrow>
      (\<exists>nd \<in> set (emitted (length g)
                (fst (QuantHardTanhPlaceholderFunction_symbolic g input qnt_type thres bias scale))).
         is_binary nd ''Add'' (Out (length g)) b))"
  by (auto simp: QuantReLUPlaceholderFunction_symbolic_def
      QuantHardTanhPlaceholderFunction_symbolic_def g_op_def emitted_def is_binary_def
      split: option.splits)

theorem relu_symbolic_ignores_bias_witness:
  "QuantReLUPlaceholderFunction_symbolic [] (Ext ''x'') ''INT2'' (Ext ''t'') (Some (Ext ''b'')) None =
   QuantReLUPlaceholderFunction_symbolic [] (Ext ''x'') ''INT2'' (Ext ''t'') None None \<and>
   \<not> (\<exists>nd \<in> set (emitted 0 (fst (QuantReLUPlaceholderFunction_symbolic
       [] (Ext ''x'') ''INT2'' (Ext ''t'') (Some (Ext ''b'')) None))). op_type nd = ''Add'') \<and>
   (\<exists>nd \<in> set (emitted 0 (fst (QuantHardTanhPlaceholderFunction_symbolic
       [] (Ext ''x'') ''INT2'' (Ext ''t'') (Some (Ext ''b'')) None))).
      is_binary nd ''Add'' (Out 0) (Ext ''b''))"
proof -
  obtain g1 r1 where c1: "QuantReLUPlaceholderFunction_symbolic
       [] (Ext ''x'') ''INT2'' (Ext ''t'') (Some (Ext ''b'')) None = (g1, r1)"
    by (cases "QuantReLUPlaceholderFunction_symbolic
       [] (Ext ''x'') ''INT2'' (Ext ''t'') (Some (Ext ''b'')) None")
  have ne: "''INT2'' \<noteq> ''BIPOLAR''" by simp
  from relu_symbolic_ignores_bias [OF c1, of None "Ext ''b''"] c1 ne
  show ?thesis by simp
qed

section \<open>Properties of accuracy\<close>

subsection \<open>The indices returned by topk\<close>

lemma set_insert_desc: "set (insert_desc p qs) = insert p (set qs)"
  by (induction qs) auto

lemma length_insert_desc: "length (insert_desc p qs) = Suc (length qs)"
  by (induction qs) auto

lemma distinct_insert_desc:
  "distinct (map snd (insert_desc p qs)) \<longleftrightarrow> snd p \<notin> snd ` set qs \<and> distinct (map snd qs)"
  by (induction qs) (auto simp: set_insert_desc)

lemma set_foldr_insert_desc: "set (foldr insert_desc ps []) = set ps"
  by (induction ps) (auto simp: set_insert_desc)

lemma length_foldr_insert_desc: "length (foldr insert_desc ps []) = length ps"
  by (induction ps) (auto simp: length_insert_desc)

lemma distinct_foldr_insert_desc:
  "distinct (map snd (foldr insert_desc ps [])) \<longleftrightarrow> distinct (map snd ps)"
  by (induction ps) (auto simp: distinct_insert_desc set_foldr_insert_desc)

lemma length_argsort_desc: "length (argsort_desc row) = length row"
  by (simp add: argsort_desc_def length_foldr_insert_desc)

lemma distinct_argsort_desc: "distinct (argsort_desc row)"
  by (simp add: argsort_desc_def distinct_foldr_insert_desc)

lemma set_argsort_desc: "set (argsort_desc row) = {..<length row}"
proof -
  have "map snd (zip row [0..<length row]) = [0..<length row]"
    by (rule map_snd_zip) simp
  then have "snd ` set (zip row [0..<length row]) = set [0..<length row]"
    by (metis set_map)
  then show ?thesis
    by (simp add: argsort_desc_def set_foldr_insert_desc atLeast0LessThan)
qed

lemma length_topk_row: "k \<le> length row \<Longrightarrow> length (topk_row k row) = k"
  by (simp add: topk_row_def length_argsort_desc)

lemma take_topk_row: "k \<le> m \<Longrightarrow> take k (topk_row m row) = topk_row k row"
  by (simp add: topk_row_def min_def)

lemma distinct_topk_row: "distinct (topk_row k row)"
  by (simp add: topk_row_def distinct_argsort_desc)

text \<open>The order of the indices: scores do not increase along the result.\<close>

lemma sorted_insert_desc:
  "sorted_wrt (\<lambda>p q. fst q \<le> fst p) qs \<Longrightarrow> sorted_wrt (\<lambda>p q. fst q \<le> fst p) (insert_desc p qs)"
  by (induction qs) (auto simp: set_insert_desc)

lemma sorted_foldr_insert_desc:
  "sorted_wrt (\<lambda>p q. fst q \<le> fst p) (foldr insert_desc ps [])"
  by (induction ps) (auto simp: sorted_insert_desc)

lemma zip_index_fst: "p \<in> set (zip row [0..<length row]) \<Longrightarrow> fst p = row ! snd p"
  by (auto simp: set_zip)

lemma argsort_desc_sorted:
  "sorted_wrt (\<lambda>i j. row ! j \<le> row ! i) (argsort_desc row)"
proof -
  let ?ps = "foldr insert_desc (zip row [0..<length row]) []"
  have "sorted_wrt (\<lambda>p q. row ! snd q \<le> row ! snd p) ?ps"
  proof (rule sorted_wrt_mono_rel [OF _ sorted_foldr_insert_desc])
    fix p q assume "p \<in> set ?ps" "q \<in> set ?ps" "fst q \<le> fst p"
    then show "row ! snd q \<le> row ! snd p"
      by (simp add: set_foldr_insert_desc zip_index_fst)
  qed
  then show ?thesis by (simp add: argsort_desc_def sorted_wrt_map)
qed

lemma topk_row_largest:
  assumes "i \<in> set (topk_row k row)" "j < length row" "j \<notin> set (topk_row k row)"
  shows "row ! j \<le> row ! i"
proof -
  have "argsort_desc row = topk_row k row @ drop k (argsort_desc row)"
    by (simp add: topk_row_def)
  moreover have "j \<in> set (argsort_desc row)"
    using assms(2) by (simp add: set_argsort_desc)
  ultimately have j: "j \<in> set (drop k (argsort_desc row))"
    using assms(3) by (metis Un_iff set_append)
  have "sorted_wrt (\<lambda>i j. row ! j \<le> row ! i) (topk_row k row @ drop k (argsort_desc row))"
    using argsort_desc_sorted [of row] by (simp add: topk_row_def)
  then show ?thesis using assms(1) j by (simp add: sorted_wrt_append)
qed

subsection \<open>Counting the true entries of correct\<close>

lemma length_filter_sum_list:
  "length (filter P zs) = (\<Sum>z\<leftarrow>zs. if P z then 1 else 0)"
  by (induction zs) auto

lemma count_columns_rows:
  "length (filter (\<lambda>b. b) (concat (map (\<lambda>i. map (f i) zs) [0..<k]))) =
   (\<Sum>z\<leftarrow>zs. length (filter (\<lambda>i. f i z) [0..<k]))"
proof (induction k)
  case 0
  show ?case by simp
next
  case (Suc k)
  have col: "length (filter (\<lambda>b. b) (map (f k) zs)) = (\<Sum>z\<leftarrow>zs. if f k z then 1 else 0)"
    by (induction zs) auto
  have row: "length (filter (\<lambda>i. f i z) [0..<Suc k]) =
             length (filter (\<lambda>i. f i z) [0..<k]) + (if f k z then 1 else 0)" for z
    by simp
  have "length (filter (\<lambda>b. b) (concat (map (\<lambda>i. map (f i) zs) [0..<Suc k]))) =
        length (filter (\<lambda>b. b) (concat (map (\<lambda>i. map (f i) zs) [0..<k]))) +
        length (filter (\<lambda>b. b) (map (f k) zs))"
    by simp
  also have "\<dots> = (\<Sum>z\<leftarrow>zs. length (filter (\<lambda>i. f i z) [0..<k])) +
                   (\<Sum>z\<leftarrow>zs. if f k z then 1 else 0)"
    using Suc col by simp
  also have "\<dots> = (\<Sum>z\<leftarrow>zs. length (filter (\<lambda>i. f i z) [0..<Suc k]))"
    by (simp only: row sum_list_addf)
  finally show ?case .
qed

lemma count_index_hits:
  "distinct xs \<Longrightarrow> k \<le> length xs \<Longrightarrow>
   length (filter (\<lambda>i. int (xs ! i) = t) [0..<k]) =
     (if t \<in> set (map int (take k xs)) then 1 else 0)"
proof (induction k)
  case 0
  show ?case by simp
next
  case (Suc k)
  then have k: "k < length xs" by simp
  have new: "xs ! k \<notin> set (take k xs)"
    using Suc.prems(1) k by (auto simp: in_set_conv_nth nth_eq_iff_index_eq)
  have "length (filter (\<lambda>i. int (xs ! i) = t) [0..<k]) =
          (if t \<in> set (map int (take k xs)) then 1 else 0)"
    using Suc by simp
  then show ?case
    using new by (auto simp: take_Suc_conv_app_nth [OF k])
qed

lemma map2_replicate:
  "length xs = m \<Longrightarrow> map2 F xs (replicate m y) = map (\<lambda>x. F x y) xs"
  by (induction xs arbitrary: m) auto

lemma correct_rows:
  "map2 (map2 (\<lambda>p t. int p = t)) (tensor_t m (map (topk_row m) rs)) (replicate m target) =
   map (\<lambda>i. map (\<lambda>(row, t). int (topk_row m row ! i) = t) (zip rs target)) [0..<m]"
proof -
  have "map2 (\<lambda>p t. int p = t) (map (\<lambda>r. r ! i) (map (topk_row m) rs)) target =
        map (\<lambda>(row, t). int (topk_row m row ! i) = t) (zip rs target)" for i
    by (simp add: zip_map1 case_prod_unfold)
  then show ?thesis
    by (simp add: tensor_t_def map2_replicate)
qed

lemma hits_count:
  assumes wf: "well_formed output" and m: "m \<le> dim1 output" and k: "k \<le> m"
  shows "length (filter (\<lambda>b. b) (concat (take k
           (map (\<lambda>i. map (\<lambda>(row, t). int (topk_row m row ! i) = t) (zip (rows output) target))
              [0..<m])))) = hits k output target"
proof -
  let ?zs = "zip (rows output) target"
  have row: "length (filter (\<lambda>i. int (topk_row m (fst z) ! i) = snd z) [0..<k]) =
             (if snd z \<in> set (map int (topk_row k (fst z))) then 1 else 0)"
    if "z \<in> set ?zs" for z
  proof -
    have "fst z \<in> set (rows output)"
      using that set_zip_leftD [of "fst z" "snd z" "rows output" target] by simp
    then have "length (fst z) = dim1 output"
      using wf by (simp add: well_formed_def list_all_iff)
    then have "k \<le> length (topk_row m (fst z))"
      using m k by (simp add: length_topk_row)
    from count_index_hits [OF distinct_topk_row this, of "snd z"] show ?thesis
      using k by (simp add: take_topk_row)
  qed
  have "take k (map (\<lambda>i. map (\<lambda>(row, t). int (topk_row m row ! i) = t) ?zs) [0..<m]) =
        map (\<lambda>i. map (\<lambda>z. int (topk_row m (fst z) ! i) = snd z) ?zs) [0..<k]"
    using k by (simp add: take_map case_prod_unfold min_def)
  then have "length (filter (\<lambda>b. b) (concat (take k
           (map (\<lambda>i. map (\<lambda>(row, t). int (topk_row m row ! i) = t) ?zs) [0..<m])))) =
        (\<Sum>z\<leftarrow>?zs. length (filter (\<lambda>i. int (topk_row m (fst z) ! i) = snd z) [0..<k]))"
    by (simp only: count_columns_rows)
  also have "\<dots> = (\<Sum>z\<leftarrow>?zs. if snd z \<in> set (map int (topk_row k (fst z))) then 1 else 0)"
    using row by (auto intro: arg_cong [where f = sum_list] map_cong)
  also have "\<dots> = hits k output target"
    by (simp only: hits_def length_filter_sum_list case_prod_unfold)
  finally show ?thesis .
qed

lemma accuracy_loop_values:
  assumes wf: "well_formed output" and m: "m \<le> dim1 output" and bs: "0 < batch_size"
    and c: "correct = map (\<lambda>i. map (\<lambda>(row, t). int (topk_row m row ! i) = t)
                              (zip (rows output) target)) [0..<m]"
  shows "\<forall>k \<in> set ks. 0 \<le> k \<and> nat k \<le> m \<Longrightarrow>
         accuracy_loop correct batch_size res ks =
           Inr (res @ map (\<lambda>k. real (hits (nat k) output target) * (100 / real batch_size)) ks)"
proof (induction ks arbitrary: res)
  case Nil
  show ?case by simp
next
  case (Cons k ks)
  then have k: "0 \<le> k" "nat k \<le> m" by simp_all
  have "length (filter (\<lambda>b. b) (concat (py_slice_to k correct))) = hits (nat k) output target"
    using hits_count [OF wf m k(2), of target] k(1) by (simp add: py_slice_to_def c)
  with Cons bs show ?case by simp
qed

lemma fold_max_between:
  "lo \<le> k0 \<Longrightarrow> k0 \<le> hi \<Longrightarrow> \<forall>k \<in> set ks. lo \<le> k \<and> k \<le> hi \<Longrightarrow>
   lo \<le> fold max ks (k0::int) \<and> fold max ks k0 \<le> hi"
  by (induction ks arbitrary: k0) auto

lemma fold_max_upper: "k \<in> set (k0 # ks) \<Longrightarrow> k \<le> fold max ks (k0::int)"
  by (simp only: Max.set_eq_fold [symmetric]) simp

text \<open>
  Claim C5, as the code has it. For a batch \<open>output\<close> of \<open>n \<ge> 1\<close> rows of
  \<open>dim1\<close> scores each, with \<open>n\<close> target labels, and a non-empty \<open>topk\<close> whose
  entries lie between 0 and \<open>dim1\<close>, \<open>accuracy\<close> returns one value per \<open>k\<close> in
  \<open>topk\<close>, in the order of \<open>topk\<close>: \<open>100 / n\<close> times the number of targets whose
  label is among the \<open>k\<close> largest scores of its row.
\<close>

theorem accuracy_values:
  assumes "well_formed output"
    and "length target = length (rows output)"
    and "target \<noteq> []"
    and "topk \<noteq> []"
    and "\<forall>k \<in> set topk. 0 \<le> k \<and> k \<le> int (dim1 output)"
  shows "accuracy output target topk =
           Inr (map (\<lambda>k. 100 / real (length target) * real (hits (nat k) output target)) topk)"
proof -
  obtain k0 ks where topk: "topk = k0 # ks"
    using assms(4) by (cases topk) auto
  define maxk where "maxk = fold max ks k0"
  have range: "0 \<le> maxk \<and> maxk \<le> int (dim1 output)"
    unfolding maxk_def using assms(5) by (intro fold_max_between) (simp_all add: topk)
  then have m: "nat maxk \<le> dim1 output" by linarith
  have below: "\<forall>k \<in> set topk. 0 \<le> k \<and> nat k \<le> nat maxk"
  proof
    fix k assume k: "k \<in> set topk"
    then have "k \<le> maxk" unfolding maxk_def topk by (rule fold_max_upper)
    then show "0 \<le> k \<and> nat k \<le> nat maxk" using assms(5) k by auto
  qed
  have pred: "tensor_topk output maxk = Inr (map (topk_row (nat maxk)) (rows output))"
    using range by (simp add: tensor_topk_def)
  have tgt: "expand_as target (nat maxk) (length (rows output)) = Inr (replicate (nat maxk) target)"
    using assms(2) by (simp add: expand_as_def)
  have bs: "0 < length target" using assms(3) by simp
  have "accuracy output target topk =
          accuracy_loop
            (map (\<lambda>i. map (\<lambda>(row, t). int (topk_row (nat maxk) row ! i) = t)
                        (zip (rows output) target)) [0..<nat maxk])
            (length target) [] topk"
    using pred tgt
    by (simp add: accuracy_def topk maxk_def [symmetric] correct_rows del: accuracy_loop.simps)
  also have "\<dots> = Inr ([] @ map (\<lambda>k. real (hits (nat k) output target) *
                                       (100 / real (length target))) topk)"
    by (rule accuracy_loop_values [OF assms(1) m bs refl below])
  finally show ?thesis by (simp add: mult.commute)
qed

theorem accuracy_values_witness:
  "well_formed \<lparr>dim1 = 3, rows = [[0.1, 0.9, 0.5], [0.3, 0.2, 0.1]]\<rparr> \<and>
   accuracy \<lparr>dim1 = 3, rows = [[0.1, 0.9, 0.5], [0.3, 0.2, 0.1]]\<rparr> [1, 2] [1, 3] =
     Inr [50, 100]"
proof -
  have wf: "well_formed \<lparr>dim1 = 3, rows = [[0.1, 0.9, 0.5], [0.3, 0.2, 0.1]]\<rparr>"
    by (simp add: well_formed_def)
  have h1: "hits (nat 1) \<lparr>dim1 = 3, rows = [[0.1, 0.9, 0.5], [0.3, 0.2, 0.1]]\<rparr> [1, 2] = 1"
    by code_simp
  have h3: "hits (nat 3) \<lparr>dim1 = 3, rows = [[0.1, 0.9, 0.5], [0.3, 0.2, 0.1]]\<rparr> [1, 2] = 2"
    by code_simp
  from accuracy_values
    [of "\<lparr>dim1 = 3, rows = [[0.1, 0.9, 0.5], [0.3, 0.2, 0.1]]\<rparr>" "[1, 2]" "[1, 3]", OF wf]
  show ?thesis using wf h1 h3 by simp
qed

text \<open>
  The claim as written speaks of every tuple \<open>topk\<close>. On the empty tuple
  \<open>max(topk)\<close> raises: no list of values is returned.
\<close>

theorem accuracy_empty_topk_counterexample:
  "accuracy \<lparr>dim1 = 2, rows = [[0.1, 0.9]]\<rparr> [1] [] = Inl ValueError \<and>
   accuracy \<lparr>dim1 = 2, rows = [[0.1, 0.9]]\<rparr> [1] [] \<noteq>
     Inr (map (\<lambda>k. 100 / real (length [1::int]) *
                    real (hits (nat k) \<lparr>dim1 = 2, rows = [[0.1, 0.9]]\<rparr> [1])) [])"
  by (simp add: accuracy_def)

section \<open>Properties of the trainer\<close>

subsection \<open>Paths\<close>

lemma takeWhile_no_slash:
  "CHR ''/'' \<notin> set b \<Longrightarrow> takeWhile (\<lambda>c. c \<noteq> CHR ''/'') (rev b @ CHR ''/'' # ys) = rev b"
  by (induction b rule: rev_induct) auto

lemma dropWhile_no_slash:
  "CHR ''/'' \<notin> set b \<Longrightarrow>
   dropWhile (\<lambda>c. c \<noteq> CHR ''/'') (rev b @ CHR ''/'' # ys) = CHR ''/'' # ys"
  by (induction b rule: rev_induct) auto

lemma dropWhile_slash_end:
  "h \<noteq> [] \<Longrightarrow> last h \<noteq> CHR ''/'' \<Longrightarrow> dropWhile (\<lambda>c. c = CHR ''/'') (rev h) = rev h"
  by (induction h rule: rev_induct) auto

lemma path_split_simple:
  assumes "CHR ''/'' \<notin> set b" "h \<noteq> []" "last h \<noteq> CHR ''/''"
  shows "path_split (h @ ''/'' @ b) = (h, b)"
proof -
  have r: "rev (h @ ''/'' @ b) = rev b @ CHR ''/'' # rev h" by simp
  have n: "\<not> list_all (\<lambda>c. c = CHR ''/'') h"
  proof
    assume "list_all (\<lambda>c. c = CHR ''/'') h"
    then have "\<forall>x \<in> set h. x = CHR ''/''" by (simp only: list_all_iff)
    moreover have "last h \<in> set h" using assms(2) by (rule last_in_set)
    ultimately have "last h = CHR ''/''" by (rule bspec)
    with assms(3) show False by (rule notE)
  qed
  have t: "rev (takeWhile (\<lambda>c. c \<noteq> CHR ''/'') (rev (h @ ''/'' @ b))) = b"
    by (simp only: r takeWhile_no_slash [OF assms(1)] rev_rev_ident)
  have d: "rev (dropWhile (\<lambda>c. c \<noteq> CHR ''/'') (rev (h @ ''/'' @ b))) = h @ ''/''"
    by (simp only: r dropWhile_no_slash [OF assms(1)]) simp
  have c: "h @ ''/'' \<noteq> [] \<and> \<not> list_all (\<lambda>c. c = CHR ''/'') (h @ ''/'')"
    using n by simp
  have s: "rev (dropWhile (\<lambda>c. c = CHR ''/'') (rev (h @ ''/''))) = h"
    by (simp add: dropWhile_slash_end [OF assms(2,3)])
  show ?thesis
    unfolding path_split_def Let_def t d s using c by simp
qed

lemma path_split_grandparent:
  assumes "CHR ''/'' \<notin> set b" "CHR ''/'' \<notin> set c" "c \<noteq> []" "d \<noteq> []" "last d \<noteq> CHR ''/''"
  shows "fst (path_split (fst (path_split (d @ ''/'' @ c @ ''/'' @ b)))) = d"
proof -
  have "last c \<in> set c" using assms(3) by (rule last_in_set)
  with assms(2) have "last c \<noteq> CHR ''/''" by (rule_tac notI) simp
  then have l: "last (d @ ''/'' @ c) \<noteq> CHR ''/''" using assms(3) by simp
  have ne: "d @ ''/'' @ c \<noteq> []" by simp
  have "path_split ((d @ ''/'' @ c) @ ''/'' @ b) = (d @ ''/'' @ c, b)"
    by (rule path_split_simple [OF assms(1) ne l])
  then have "fst (path_split (d @ ''/'' @ c @ ''/'' @ b)) = d @ ''/'' @ c" by simp
  moreover have "path_split (d @ ''/'' @ c) = (d, c)"
    by (rule path_split_simple [OF assms(2,4,5)])
  ultimately show ?thesis by simp
qed

subsection \<open>The stages of __init__\<close>

lemma Trainer_init_Inr:
  assumes "Trainer_init a ev = (es, Inr tr)"
  shows "self_args tr = a \<and> trace tr = es \<and>
    output_dir_path tr =
       (case resume a of
          None \<Rightarrow> path_join (experiments a) (dataset a @ ''_'' @ network a @ ''_'' @ now ev)
        | Some p \<Rightarrow>
            (if p = [] then path_join (experiments a) (dataset a @ ''_'' @ network a @ ''_'' @ now ev)
             else fst (path_split (fst (path_split p))))) \<and>
    checkpoints_dir_path tr =
       (if \<not> dry_run a then Some (path_join (output_dir_path tr) ''checkpoints'') else None) \<and>
    (\<exists>builder m ev3 package gs.
       select_dataset (dataset a) = Inr (builder, num_classes tr, in_channels tr) \<and>
       extract_model a ev (num_classes tr) = Inr m \<and>
       setup_device a ev = Inr (gs, self_device tr) \<and>
       resume_checkpoint a ev m = (ev3, Inr (package, model tr)) \<and>
       init_optimization a ev package =
         Inr (optimizer tr, starting_epoch tr, best_val_acc tr, self_scheduler tr) \<and>
       es = (if \<not> dry_run a \<and> \<not> truthy (resume a)
             then [Mkdir (output_dir_path tr), Mkdir (path_join (output_dir_path tr) ''checkpoints'')]
             else []) @ [BuildDataset builder True, BuildDataset builder False] @ ev3)"
  using assms
  unfolding Trainer_init_def Let_def
  by (auto split: sum.splits prod.splits)

subsection \<open>Checkpoints and epochs\<close>

lemma saved_paths_append: "saved_paths (xs @ ys) = saved_paths xs @ saved_paths ys"
  by (induction xs rule: saved_paths.induct) simp_all

lemma trained_epochs_append: "trained_epochs (xs @ ys) = trained_epochs xs @ trained_epochs ys"
  by (induction xs rule: trained_epochs.induct) simp_all

lemma marks_append: "marks (xs @ ys) = marks xs @ marks ys"
  by (induction xs rule: marks.induct) simp_all

lemma checkpoint_best_Inr:
  assumes "checkpoint_best tr epoch name = Inr tr'"
  obtains d opt where
    "checkpoints_dir_path tr = Some d" "optimizer tr = Some opt"
    "tr' = tr\<lparr>trace := trace tr @
             [TorchSave (path_join d name)
                [(''state_dict'', PState (model tr)), (''optim_dict'', POptim opt),
                 (''epoch'', PInt (epoch + 1)), (''best_val_acc'', PFloat (best_val_acc tr))],
              ModelTo Cpu,
              ExportOnnx (d @ ''/'' @ name @ ''.onnx'') [1, in_channels tr, 32, 32],
              ModelTo (self_device tr)]\<rparr>"
  using assms
  by (cases "checkpoints_dir_path tr"; cases "optimizer tr")
     (simp_all add: checkpoint_best_def quant_export_def)

lemma checkpoint_step_Inr:
  assumes "checkpoint_step tr epoch top1avg = Inr tr'"
  shows "self_args tr' = self_args tr \<and> checkpoints_dir_path tr' = checkpoints_dir_path tr \<and>
         starting_epoch tr' = starting_epoch tr \<and>
         best_val_acc tr' =
           (if best_val_acc tr \<le> top1avg \<and> \<not> dry_run (self_args tr) then top1avg
            else best_val_acc tr) \<and>
         (\<exists>new. trace tr' = trace tr @ new \<and> trained_epochs new = [] \<and>
            marks new = map Saved (saved_paths new) \<and>
            saved_paths new =
              (if dry_run (self_args tr) then []
               else [path_join (the (checkpoints_dir_path tr))
                       (if best_val_acc tr \<le> top1avg then ''best.tar'' else ''checkpoint.tar'')]))"
proof (cases "dry_run (self_args tr)")
  case True
  with assms show ?thesis by (simp add: checkpoint_step_def)
next
  case dry: False
  show ?thesis
  proof (cases "best_val_acc tr \<le> top1avg")
    case True
    with dry assms have "checkpoint_best (tr\<lparr>best_val_acc := top1avg\<rparr>) epoch ''best.tar'' = Inr tr'"
      by (simp add: checkpoint_step_def)
    then show ?thesis
      using dry True by (elim checkpoint_best_Inr) simp
  next
    case False
    with dry assms have "checkpoint_best tr epoch ''checkpoint.tar'' = Inr tr'"
      by (simp add: checkpoint_step_def)
    then show ?thesis
      using dry False by (elim checkpoint_best_Inr) simp
  qed
qed

lemma set_learning_rate_Inr:
  assumes "set_learning_rate tr epoch = Inr tr'"
  shows "self_args tr' = self_args tr \<and> checkpoints_dir_path tr' = checkpoints_dir_path tr \<and>
         starting_epoch tr' = starting_epoch tr \<and> best_val_acc tr' = best_val_acc tr \<and>
         model tr' = model tr \<and>
         (\<exists>new. trace tr' = trace tr @ new \<and> trained_epochs new = [] \<and> saved_paths new = [] \<and>
            marks new = [])"
  using assms
  by (cases "self_scheduler tr"; cases "optimizer tr"; cases "epoch mod 40 = 0")
     (auto simp: set_learning_rate_def)

lemma train_epoch_Inr:
  assumes "train_epoch ev epoch tr = Inr tr'"
  shows "self_args tr' = self_args tr \<and> checkpoints_dir_path tr' = checkpoints_dir_path tr \<and>
         starting_epoch tr' = starting_epoch tr \<and>
         (\<exists>top1avg new.
            eval_top1 ev epoch (model tr') = Inr top1avg \<and>
            best_val_acc tr' =
              (if best_val_acc tr \<le> top1avg \<and> \<not> dry_run (self_args tr) then top1avg
               else best_val_acc tr) \<and>
            trace tr' = trace tr @ new \<and> trained_epochs new = [epoch] \<and>
            marks new = Evaluated epoch top1avg # map Saved (saved_paths new) \<and>
            saved_paths new =
              (if dry_run (self_args tr) then []
               else [path_join (the (checkpoints_dir_path tr))
                       (if best_val_acc tr \<le> top1avg then ''best.tar'' else ''checkpoint.tar'')]))"
proof -
  obtain opt where opt: "optimizer tr = Some opt"
    using assms by (cases "optimizer tr") (simp_all add: train_epoch_def)
  obtain m opt' where tb: "train_batches ev epoch (model tr) opt = Inr (m, opt')"
    using assms opt by (cases "train_batches ev epoch (model tr) opt") (auto simp: train_epoch_def)
  define tr0 where "tr0 = tr\<lparr>model := m, optimizer := Some opt',
                              trace := trace tr @ [TrainEpoch epoch]\<rparr>"
  obtain tr1 where lr: "set_learning_rate tr0 epoch = Inr tr1"
    using assms opt tb
    by (cases "set_learning_rate tr0 epoch") (simp_all add: train_epoch_def tr0_def)
  obtain top1avg where ev: "eval_top1 ev epoch (model tr1) = Inr top1avg"
    using assms opt tb lr
    by (cases "eval_top1 ev epoch (model tr1)") (simp_all add: train_epoch_def tr0_def)
  define tr2 where "tr2 = tr1\<lparr>trace := trace tr1 @ [EvalModel epoch top1avg]\<rparr>"
  have cs: "checkpoint_step tr2 epoch top1avg = Inr tr'"
    using assms opt tb lr ev by (simp add: train_epoch_def tr0_def tr2_def)
  note f1 = set_learning_rate_Inr [OF lr]
  note f2 = checkpoint_step_Inr [OF cs]
  obtain new1 where n1: "trace tr1 = trace tr0 @ new1" "trained_epochs new1 = []"
      "saved_paths new1 = []" "marks new1 = []"
    using f1 by blast
  obtain new2 where n2: "trace tr' = trace tr2 @ new2" "trained_epochs new2 = []"
      "marks new2 = map Saved (saved_paths new2)"
      "saved_paths new2 =
         (if dry_run (self_args tr2) then []
          else [path_join (the (checkpoints_dir_path tr2))
                  (if best_val_acc tr2 \<le> top1avg then ''best.tar'' else ''checkpoint.tar'')])"
    using f2 by blast
  have same: "self_args tr2 = self_args tr" "checkpoints_dir_path tr2 = checkpoints_dir_path tr"
      "starting_epoch tr2 = starting_epoch tr" "best_val_acc tr2 = best_val_acc tr"
      "model tr2 = model tr1"
    using f1 by (simp_all add: tr2_def tr0_def)
  have mdl: "model tr' = model tr1"
    using cs by (auto simp: checkpoint_step_def tr2_def split: if_splits
        elim!: checkpoint_best_Inr)
  have tr: "trace tr' = trace tr @ ([TrainEpoch epoch] @ new1 @ [EvalModel epoch top1avg] @ new2)"
    using n1(1) n2(1) by (simp add: tr2_def tr0_def)
  have te: "trained_epochs ([TrainEpoch epoch] @ new1 @ [EvalModel epoch top1avg] @ new2) = [epoch]"
    using n1(2) n2(2) by (simp add: trained_epochs_append)
  have sp: "saved_paths ([TrainEpoch epoch] @ new1 @ [EvalModel epoch top1avg] @ new2) =
            saved_paths new2"
    using n1(3) by (simp add: saved_paths_append)
  have mk: "marks ([TrainEpoch epoch] @ new1 @ [EvalModel epoch top1avg] @ new2) =
            Evaluated epoch top1avg #
            map Saved (saved_paths ([TrainEpoch epoch] @ new1 @ [EvalModel epoch top1avg] @ new2))"
    unfolding sp using n1(4) n2(3) by (simp add: marks_append)
  have bv: "best_val_acc tr' =
              (if best_val_acc tr \<le> top1avg \<and> \<not> dry_run (self_args tr) then top1avg
               else best_val_acc tr)"
    using f2 same by simp
  have ev': "eval_top1 ev epoch (model tr') = Inr top1avg"
    using ev mdl by simp
  have sp2: "saved_paths ([TrainEpoch epoch] @ new1 @ [EvalModel epoch top1avg] @ new2) =
              (if dry_run (self_args tr) then []
               else [path_join (the (checkpoints_dir_path tr))
                       (if best_val_acc tr \<le> top1avg then ''best.tar'' else ''checkpoint.tar'')])"
    unfolding sp n2(4) same by (rule refl)
  have "self_args tr' = self_args tr" "checkpoints_dir_path tr' = checkpoints_dir_path tr"
    "starting_epoch tr' = starting_epoch tr"
    using f2 same by simp_all
  then show ?thesis
    using ev' bv tr te mk sp2 by blast
qed

lemma train_epochs_Inr:
  "train_epochs ev es tr = Inr tr' \<Longrightarrow>
   self_args tr' = self_args tr \<and> checkpoints_dir_path tr' = checkpoints_dir_path tr \<and>
   best_val_acc tr \<le> best_val_acc tr' \<and>
   (\<exists>new. trace tr' = trace tr @ new \<and> trained_epochs new = es)"
proof (induction es arbitrary: tr)
  case Nil
  then show ?case by simp
next
  case (Cons e es)
  then obtain tr1 where s: "train_epoch ev e tr = Inr tr1" and r: "train_epochs ev es tr1 = Inr tr'"
    by (cases "train_epoch ev e tr") simp_all
  from train_epoch_Inr [OF s] obtain new1 where
    a: "self_args tr1 = self_args tr" "checkpoints_dir_path tr1 = checkpoints_dir_path tr"
       "best_val_acc tr \<le> best_val_acc tr1" "trace tr1 = trace tr @ new1"
       "trained_epochs new1 = [e]"
    by (auto split: if_splits)
  from Cons.IH [OF r] obtain new2 where
    b: "self_args tr' = self_args tr1" "checkpoints_dir_path tr' = checkpoints_dir_path tr1"
       "best_val_acc tr1 \<le> best_val_acc tr'" "trace tr' = trace tr1 @ new2"
       "trained_epochs new2 = es"
    by auto
  have "trace tr' = trace tr @ (new1 @ new2)" using a(4) b(4) by simp
  moreover have "trained_epochs (new1 @ new2) = e # es"
    using a(5) b(5) by (simp add: trained_epochs_append)
  ultimately show ?case using a b by (intro conjI exI [of _ "new1 @ new2"]) simp_all
qed

lemma train_epochs_marks:
  "train_epochs ev es tr = Inr tr' \<Longrightarrow> \<not> dry_run (self_args tr) \<Longrightarrow>
   checkpoints_dir_path tr = Some d \<Longrightarrow>
   \<exists>new evs. trace tr' = trace tr @ new \<and> map fst evs = es \<and>
     marks new = expected_marks d (best_val_acc tr) evs \<and>
     length (saved_paths new) = length es \<and>
     best_val_acc tr' = fold max (map snd evs) (best_val_acc tr)"
proof (induction es arbitrary: tr)
  case Nil
  then show ?case by (intro exI [of _ "[]"]) simp
next
  case (Cons e es)
  then obtain tr1 where s: "train_epoch ev e tr = Inr tr1" and r: "train_epochs ev es tr1 = Inr tr'"
    by (cases "train_epoch ev e tr") simp_all
  from train_epoch_Inr [OF s] Cons.prems(2,3) obtain avg new1 where
    a: "self_args tr1 = self_args tr" "checkpoints_dir_path tr1 = checkpoints_dir_path tr"
       "best_val_acc tr1 = (if best_val_acc tr \<le> avg then avg else best_val_acc tr)"
       "trace tr1 = trace tr @ new1"
       "saved_paths new1 =
          [path_join d (if best_val_acc tr \<le> avg then ''best.tar'' else ''checkpoint.tar'')]"
       "marks new1 = Evaluated e avg # map Saved (saved_paths new1)"
    by auto
  have "\<not> dry_run (self_args tr1)" "checkpoints_dir_path tr1 = Some d"
    using a(1,2) Cons.prems(2,3) by simp_all
  from Cons.IH [OF r this] obtain new2 evs2 where
    b: "trace tr' = trace tr1 @ new2" "map fst evs2 = es"
       "marks new2 = expected_marks d (best_val_acc tr1) evs2"
       "length (saved_paths new2) = length es"
       "best_val_acc tr' = fold max (map snd evs2) (best_val_acc tr1)"
    by blast
  have 1: "trace tr' = trace tr @ (new1 @ new2)" using a(4) b(1) by simp
  have 2: "map fst ((e, avg) # evs2) = e # es" using b(2) by simp
  have 3: "marks (new1 @ new2) = expected_marks d (best_val_acc tr) ((e, avg) # evs2)"
    unfolding marks_append a(6) a(5) b(3) a(3) by simp
  have 4: "length (saved_paths (new1 @ new2)) = length (e # es)"
    unfolding saved_paths_append a(5) using b(4) by simp
  have "max avg (best_val_acc tr) = (if best_val_acc tr \<le> avg then avg else best_val_acc tr)"
    by (simp add: max_def)
  then have 5: "best_val_acc tr' = fold max (map snd ((e, avg) # evs2)) (best_val_acc tr)"
    using b(5) a(3) by simp
  from 1 2 3 4 5 show ?case
    by (intro exI [of _ "new1 @ new2"] exI [of _ "(e, avg) # evs2"] conjI)
qed

lemma train_epochs_dry_run:
  "train_epochs ev es tr = Inr tr' \<Longrightarrow> dry_run (self_args tr) \<Longrightarrow>
   \<exists>new. trace tr' = trace tr @ new \<and> saved_paths new = [] \<and>
     best_val_acc tr' = best_val_acc tr"
proof (induction es arbitrary: tr)
  case Nil
  then show ?case by simp
next
  case (Cons e es)
  then obtain tr1 where s: "train_epoch ev e tr = Inr tr1" and r: "train_epochs ev es tr1 = Inr tr'"
    by (cases "train_epoch ev e tr") simp_all
  from train_epoch_Inr [OF s] Cons.prems(2) obtain new1 where
    a: "self_args tr1 = self_args tr" "best_val_acc tr1 = best_val_acc tr"
       "trace tr1 = trace tr @ new1" "saved_paths new1 = []"
    by auto
  have "dry_run (self_args tr1)" using a(1) Cons.prems(2) by simp
  from Cons.IH [OF r this] obtain new2 where
    b: "trace tr' = trace tr1 @ new2" "saved_paths new2 = []"
       "best_val_acc tr' = best_val_acc tr1"
    by blast
  have "trace tr' = trace tr @ (new1 @ new2)" using a(3) b(1) by simp
  moreover have "saved_paths (new1 @ new2) = []"
    using a(4) b(2) by (simp add: saved_paths_append)
  moreover have "best_val_acc tr' = best_val_acc tr" using a(2) b(3) by simp
  ultimately show ?case by blast
qed

lemma length_py_range: "length (py_range a b) = nat (b - a)"
  by (simp add: py_range_def)

lemmas train_defs = train_model_def py_range_def train_epoch_def set_learning_rate_def
  checkpoint_step_def checkpoint_best_def quant_export_def example_trainer_def
  example_args_def example_env_def path_join_def

text \<open>
  Claim C4, as the code has it. When the trainer has a checkpoint directory (it was
  not built for a dry run) and an optimizer (\<open>args.optim\<close> was \<open>'ADAM'\<close> or
  \<open>'SGD'\<close>), \<open>checkpoint_best(epoch, name)\<close> returns normally, having saved to
  \<open>os.path.join(checkpoints_dir_path, name)\<close> a dictionary with exactly the keys
  \<open>'state_dict'\<close>, \<open>'optim_dict'\<close>, \<open>'epoch'\<close> and \<open>'best_val_acc'\<close>, where
  \<open>'epoch'\<close> is \<open>epoch + 1\<close>, and then having exported the network to
  \<open>checkpoints_dir_path + "/" + name + ".onnx"\<close>: for a plain file name that is the
  checkpoint's path with \<open>.onnx\<close> appended, in the same directory.
\<close>

theorem checkpoint_best_saves:
  assumes "checkpoints_dir_path tr = Some d" and "optimizer tr = Some opt"
  shows "(\<exists>saved.
            checkpoint_best tr epoch name =
              Inr (tr\<lparr>trace := trace tr @
                     [TorchSave (path_join d name) saved,
                      ModelTo Cpu,
                      ExportOnnx (d @ ''/'' @ name @ ''.onnx'') [1, in_channels tr, 32, 32],
                      ModelTo (self_device tr)]\<rparr>) \<and>
            map fst saved = [''state_dict'', ''optim_dict'', ''epoch'', ''best_val_acc''] \<and>
            map_of saved ''state_dict'' = Some (PState (model tr)) \<and>
            map_of saved ''optim_dict'' = Some (POptim opt) \<and>
            map_of saved ''epoch'' = Some (PInt (epoch + 1)) \<and>
            map_of saved ''best_val_acc'' = Some (PFloat (best_val_acc tr))) \<and>
         (CHR ''/'' \<notin> set name \<and> d \<noteq> [] \<and> last d \<noteq> CHR ''/'' \<longrightarrow>
            d @ ''/'' @ name @ ''.onnx'' = path_join d name @ ''.onnx'' \<and>
            path_split (path_join d name) = (d, name) \<and>
            path_split (d @ ''/'' @ name @ ''.onnx'') = (d, name @ ''.onnx''))"
proof (intro conjI impI)
  show "\<exists>saved.
            checkpoint_best tr epoch name =
              Inr (tr\<lparr>trace := trace tr @
                     [TorchSave (path_join d name) saved,
                      ModelTo Cpu,
                      ExportOnnx (d @ ''/'' @ name @ ''.onnx'') [1, in_channels tr, 32, 32],
                      ModelTo (self_device tr)]\<rparr>) \<and>
            map fst saved = [''state_dict'', ''optim_dict'', ''epoch'', ''best_val_acc''] \<and>
            map_of saved ''state_dict'' = Some (PState (model tr)) \<and>
            map_of saved ''optim_dict'' = Some (POptim opt) \<and>
            map_of saved ''epoch'' = Some (PInt (epoch + 1)) \<and>
            map_of saved ''best_val_acc'' = Some (PFloat (best_val_acc tr))"
    using assms
    by (intro exI [of _ "[(''state_dict'', PState (model tr)), (''optim_dict'', POptim opt),
                          (''epoch'', PInt (epoch + 1)),
                          (''best_val_acc'', PFloat (best_val_acc tr))]"])
       (simp add: checkpoint_best_def quant_export_def)
next
  assume a: "CHR ''/'' \<notin> set name \<and> d \<noteq> [] \<and> last d \<noteq> CHR ''/''"
  have hd: "name = [] \<or> hd name \<noteq> CHR ''/''"
  proof (cases name)
    case Nil
    then show ?thesis by simp
  next
    case (Cons x xs)
    then have "hd name \<in> set name" by simp
    moreover have "CHR ''/'' \<notin> set name" using a by (rule conjunct1)
    ultimately show ?thesis by (intro disjI2 notI) simp
  qed
  with a show j: "d @ ''/'' @ name @ ''.onnx'' = path_join d name @ ''.onnx''"
    by (simp add: path_join_def)
  from a hd have pj: "path_join d name = d @ ''/'' @ name"
    by (simp add: path_join_def)
  from a show "path_split (path_join d name) = (d, name)"
    unfolding pj by (intro path_split_simple) simp_all
  have "CHR ''/'' \<notin> set (name @ ''.onnx'')" using a by simp
  then have "path_split (d @ ''/'' @ (name @ ''.onnx'')) = (d, name @ ''.onnx'')"
    using a by (intro path_split_simple) simp_all
  then show "path_split (d @ ''/'' @ name @ ''.onnx'') = (d, name @ ''.onnx'')"
    by simp
qed

theorem checkpoint_best_saves_witness:
  "checkpoints_dir_path example_trainer = Some ''exp/run/checkpoints'' \<and>
   (\<exists>saved. checkpoint_best example_trainer 4 ''best.tar'' =
      Inr (example_trainer\<lparr>trace :=
             [TorchSave ''exp/run/checkpoints/best.tar'' saved,
              ModelTo Cpu,
              ExportOnnx ''exp/run/checkpoints/best.tar.onnx'' [1, 1, 32, 32],
              ModelTo Cpu]\<rparr>) \<and>
      map fst saved = [''state_dict'', ''optim_dict'', ''epoch'', ''best_val_acc''] \<and>
      map_of saved ''epoch'' = Some (PInt 5))"
proof -
  have c: "checkpoints_dir_path example_trainer = Some ''exp/run/checkpoints''"
    by (simp add: example_trainer_def)
  have o: "optimizer example_trainer = Some \<lparr>opt_kind = ''ADAM'', opt_lr = 0.02, opt_state = []\<rparr>"
    by (simp add: example_trainer_def)
  have p: "path_join ''exp/run/checkpoints'' ''best.tar'' = ''exp/run/checkpoints/best.tar''"
    by (simp add: path_join_def)
  have f: "in_channels example_trainer = 1" "self_device example_trainer = Cpu"
    "trace example_trainer = []"
    by (simp_all add: example_trainer_def)
  from checkpoint_best_saves [OF c o, of 4 "''best.tar''"]
  show ?thesis unfolding p f using c by auto
qed

text \<open>
  The claim as written speaks of every call. The trainer that \<open>__init__\<close> builds for
  a dry run has no \<open>checkpoints_dir_path\<close>: a call of \<open>checkpoint_best\<close> on it
  raises \<open>AttributeError\<close> and saves nothing.
\<close>

theorem checkpoint_best_dry_run_counterexample:
  "Trainer_init (example_args\<lparr>dry_run := True\<rparr>) example_env =
     ([BuildDataset ''MNIST'' True, BuildDataset ''MNIST'' False], Inr example_dry_trainer) \<and>
   checkpoint_best example_dry_trainer 1 ''best.tar'' =
     Inl (AttributeError ''checkpoints_dir_path'')"
  by (simp add: Trainer_init_def select_dataset_def extract_model_def setup_device_def
      resume_checkpoint_def init_optimization_def init_optimizer_def init_scheduler_def
      init_criterion_def truthy_def path_join_def example_args_def example_env_def Let_def
      example_dry_trainer_def example_trainer_def checkpoint_best_def)

text \<open>
  Claim C3. At the end of an epoch, when \<open>args.dry_run\<close> is false, exactly one
  checkpoint is written: \<open>best.tar\<close> if the epoch's top-1 average is at least
  \<open>best_val_acc\<close>, which then becomes that average, and \<open>checkpoint.tar\<close>
  otherwise, with \<open>best_val_acc\<close> unchanged. So \<open>best_val_acc\<close> does not decrease
  in an epoch, nor over the run of \<open>train_model\<close>. Over the whole run of
  \<open>train_model\<close> the evaluations and the checkpoints alternate: one evaluation per
  epoch of the range, each followed by its one checkpoint, named as said, and at the end
  \<open>best_val_acc\<close> is the largest of its first value and the averages. In a dry run
  nothing is saved and \<open>best_val_acc\<close> stays as it is.
\<close>

theorem one_checkpoint_per_epoch:
  "(\<not> dry_run (self_args tr) \<longrightarrow> checkpoint_step tr epoch top1avg = Inr tr' \<longrightarrow>
      (\<exists>d new. checkpoints_dir_path tr = Some d \<and> trace tr' = trace tr @ new \<and>
         saved_paths new =
           [path_join d (if best_val_acc tr \<le> top1avg then ''best.tar'' else ''checkpoint.tar'')]) \<and>
      best_val_acc tr' = (if best_val_acc tr \<le> top1avg then top1avg else best_val_acc tr)) \<and>
   (\<not> dry_run (self_args tr) \<longrightarrow> train_epoch ev epoch tr = Inr tr1 \<longrightarrow>
      (\<exists>d new avg. checkpoints_dir_path tr = Some d \<and> trace tr1 = trace tr @ new \<and>
         eval_top1 ev epoch (model tr1) = Inr avg \<and>
         saved_paths new =
           [path_join d (if best_val_acc tr \<le> avg then ''best.tar'' else ''checkpoint.tar'')] \<and>
         best_val_acc tr1 = (if best_val_acc tr \<le> avg then avg else best_val_acc tr))) \<and>
   (train_epoch ev epoch tr = Inr tr1 \<longrightarrow> best_val_acc tr \<le> best_val_acc tr1) \<and>
   (train_model ev tr = Inr (tr2, ret) \<longrightarrow> best_val_acc tr \<le> best_val_acc tr2) \<and>
   (\<not> dry_run (self_args tr) \<longrightarrow> train_model ev tr = Inr (tr2, ret) \<longrightarrow>
      (\<exists>d new evs. checkpoints_dir_path tr = Some d \<and> trace tr2 = trace tr @ new \<and>
         map fst evs = py_range (starting_epoch tr) (epochs (self_args tr)) \<and>
         marks new = expected_marks d (best_val_acc tr) evs \<and>
         length (saved_paths new) = length (py_range (starting_epoch tr) (epochs (self_args tr))) \<and>
         best_val_acc tr2 = fold max (map snd evs) (best_val_acc tr))) \<and>
   (dry_run (self_args tr) \<longrightarrow> train_model ev tr = Inr (tr2, ret) \<longrightarrow>
      (\<exists>new. trace tr2 = trace tr @ new \<and> saved_paths new = []) \<and>
      best_val_acc tr2 = best_val_acc tr)"
proof (intro conjI impI)
  assume dry: "\<not> dry_run (self_args tr)" and cs: "checkpoint_step tr epoch top1avg = Inr tr'"
  have "\<exists>d. checkpoints_dir_path tr = Some d"
    using cs dry
    by (cases "checkpoints_dir_path tr")
       (simp_all add: checkpoint_step_def checkpoint_best_def split: if_splits)
  then show "\<exists>d new. checkpoints_dir_path tr = Some d \<and> trace tr' = trace tr @ new \<and>
         saved_paths new =
           [path_join d (if best_val_acc tr \<le> top1avg then ''best.tar'' else ''checkpoint.tar'')]"
    using checkpoint_step_Inr [OF cs] dry by auto
  show "best_val_acc tr' = (if best_val_acc tr \<le> top1avg then top1avg else best_val_acc tr)"
    using checkpoint_step_Inr [OF cs] dry by simp
next
  assume dry: "\<not> dry_run (self_args tr)" and te: "train_epoch ev epoch tr = Inr tr1"
  from train_epoch_Inr [OF te] dry obtain avg new where
    f: "eval_top1 ev epoch (model tr1) = Inr avg"
       "best_val_acc tr1 = (if best_val_acc tr \<le> avg then avg else best_val_acc tr)"
       "trace tr1 = trace tr @ new"
       "saved_paths new =
          [path_join (the (checkpoints_dir_path tr))
             (if best_val_acc tr \<le> avg then ''best.tar'' else ''checkpoint.tar'')]"
       "checkpoints_dir_path tr1 = checkpoints_dir_path tr"
    by auto
  have "\<exists>d. checkpoints_dir_path tr = Some d"
  proof (cases "checkpoints_dir_path tr")
    case None
    then have "checkpoint_best t e n = Inl (AttributeError ''checkpoints_dir_path'')"
      if "checkpoints_dir_path t = checkpoints_dir_path tr" for t e n
      using that by (simp add: checkpoint_best_def)
    then have "checkpoint_step t e a = Inl (AttributeError ''checkpoints_dir_path'')"
      if "checkpoints_dir_path t = checkpoints_dir_path tr" "self_args t = self_args tr" for t e a
      using that dry by (simp add: checkpoint_step_def)
    with te show ?thesis
      by (auto simp: train_epoch_def split: option.splits sum.splits
          dest!: set_learning_rate_Inr)
  qed simp
  then show "\<exists>d new avg. checkpoints_dir_path tr = Some d \<and> trace tr1 = trace tr @ new \<and>
         eval_top1 ev epoch (model tr1) = Inr avg \<and>
         saved_paths new =
           [path_join d (if best_val_acc tr \<le> avg then ''best.tar'' else ''checkpoint.tar'')] \<and>
         best_val_acc tr1 = (if best_val_acc tr \<le> avg then avg else best_val_acc tr)"
    using f by auto
next
  assume "train_epoch ev epoch tr = Inr tr1"
  from train_epoch_Inr [OF this] show "best_val_acc tr \<le> best_val_acc tr1"
    by (auto split: if_splits)
next
  assume "train_model ev tr = Inr (tr2, ret)"
  then have "train_epochs ev (py_range (starting_epoch tr) (epochs (self_args tr))) tr = Inr tr2"
    by (auto simp: train_model_def split: sum.splits if_splits option.splits)
  from train_epochs_Inr [OF this] show "best_val_acc tr \<le> best_val_acc tr2" by simp
next
  assume dry: "\<not> dry_run (self_args tr)" and tm: "train_model ev tr = Inr (tr2, ret)"
  from tm have te: "train_epochs ev (py_range (starting_epoch tr) (epochs (self_args tr))) tr = Inr tr2"
    by (auto simp: train_model_def split: sum.splits if_splits option.splits)
  from train_epochs_Inr [OF te] have same: "self_args tr2 = self_args tr"
    "checkpoints_dir_path tr2 = checkpoints_dir_path tr"
    by simp_all
  obtain d where d: "checkpoints_dir_path tr = Some d"
    using tm te dry same
    by (cases "checkpoints_dir_path tr") (simp_all add: train_model_def)
  from train_epochs_marks [OF te dry d]
  show "\<exists>d new evs. checkpoints_dir_path tr = Some d \<and> trace tr2 = trace tr @ new \<and>
         map fst evs = py_range (starting_epoch tr) (epochs (self_args tr)) \<and>
         marks new = expected_marks d (best_val_acc tr) evs \<and>
         length (saved_paths new) = length (py_range (starting_epoch tr) (epochs (self_args tr))) \<and>
         best_val_acc tr2 = fold max (map snd evs) (best_val_acc tr)"
    using d by blast
next
  assume dry: "dry_run (self_args tr)" and tm: "train_model ev tr = Inr (tr2, ret)"
  from tm have te: "train_epochs ev (py_range (starting_epoch tr) (epochs (self_args tr))) tr = Inr tr2"
    by (auto simp: train_model_def split: sum.splits if_splits option.splits)
  from train_epochs_dry_run [OF te dry]
  show "\<exists>new. trace tr2 = trace tr @ new \<and> saved_paths new = []"
    and "best_val_acc tr2 = best_val_acc tr"
    by blast+
qed

theorem one_checkpoint_per_epoch_witness:
  "\<not> dry_run (self_args example_trainer) \<and>
   (\<exists>tr'. checkpoint_step example_trainer 1 50 = Inr tr' \<and> best_val_acc tr' = 50 \<and>
      saved_paths (trace tr') = [''exp/run/checkpoints/best.tar'']) \<and>
   (\<exists>tr2 ret. train_model example_env example_trainer = Inr (tr2, ret) \<and>
      best_val_acc example_trainer \<le> best_val_acc tr2 \<and>
      marks (trace tr2) =
        [Evaluated 1 50, Saved ''exp/run/checkpoints/best.tar'',
         Evaluated 2 40, Saved ''exp/run/checkpoints/checkpoint.tar''] \<and>
      length (saved_paths (trace tr2)) = 2 \<and>
      (\<exists>evs. map fst evs = [1, 2] \<and>
         marks (trace tr2) = expected_marks ''exp/run/checkpoints'' 0 evs \<and>
         best_val_acc tr2 = fold max (map snd evs) 0))"
proof -
  have dry: "\<not> dry_run (self_args example_trainer)"
    by (simp add: example_trainer_def example_args_def)
  obtain tr' where cs: "checkpoint_step example_trainer 1 50 = Inr tr'"
    by (simp add: train_defs)
  obtain tr2 ret where tm: "train_model example_env example_trainer = Inr (tr2, ret)"
    and mk: "marks (trace tr2) =
        [Evaluated 1 50, Saved ''exp/run/checkpoints/best.tar'',
         Evaluated 2 40, Saved ''exp/run/checkpoints/checkpoint.tar'']"
    by (simp add: train_defs upto.simps)
  have f: "checkpoints_dir_path example_trainer = Some ''exp/run/checkpoints''"
    "trace example_trainer = []" "best_val_acc example_trainer = 0"
    "starting_epoch example_trainer = 1" "epochs (self_args example_trainer) = 3"
    by (simp_all add: example_trainer_def example_args_def)
  have p: "path_join ''exp/run/checkpoints'' ''best.tar'' = ''exp/run/checkpoints/best.tar''"
    by (simp add: path_join_def)
  have u: "py_range 1 3 = [1, 2]" by (simp add: py_range_def upto.simps)
  note th = one_checkpoint_per_epoch [where tr = example_trainer and epoch = 1 and top1avg = 50
      and tr' = tr' and ev = example_env and ?tr2.0 = tr2 and ret = ret]
  from th dry cs
  have 1: "(\<exists>d new. checkpoints_dir_path example_trainer = Some d \<and>
            trace tr' = trace example_trainer @ new \<and>
            saved_paths new =
              [path_join d (if best_val_acc example_trainer \<le> 50 then ''best.tar''
                            else ''checkpoint.tar'')])"
    and 2: "best_val_acc tr' =
           (if best_val_acc example_trainer \<le> 50 then 50 else best_val_acc example_trainer)"
    by blast+
  from th tm have 3: "best_val_acc example_trainer \<le> best_val_acc tr2" by blast
  from th dry tm
  have 4: "\<exists>d new evs. checkpoints_dir_path example_trainer = Some d \<and>
         trace tr2 = trace example_trainer @ new \<and>
         map fst evs = py_range (starting_epoch example_trainer)
                         (epochs (self_args example_trainer)) \<and>
         marks new = expected_marks d (best_val_acc example_trainer) evs \<and>
         length (saved_paths new) =
           length (py_range (starting_epoch example_trainer)
                     (epochs (self_args example_trainer))) \<and>
         best_val_acc tr2 = fold max (map snd evs) (best_val_acc example_trainer)"
    by blast
  from 1 2 have a: "best_val_acc tr' = 50 \<and>
      saved_paths (trace tr') = [''exp/run/checkpoints/best.tar'']"
    by (auto simp: f p)
  from 4 obtain d new evs where
    x: "checkpoints_dir_path example_trainer = Some d"
       "trace tr2 = trace example_trainer @ new"
       "map fst evs = py_range (starting_epoch example_trainer)
                         (epochs (self_args example_trainer))"
       "marks new = expected_marks d (best_val_acc example_trainer) evs"
       "length (saved_paths new) =
           length (py_range (starting_epoch example_trainer)
                     (epochs (self_args example_trainer)))"
       "best_val_acc tr2 = fold max (map snd evs) (best_val_acc example_trainer)"
    by blast
  have d: "d = ''exp/run/checkpoints''" using x(1) by (simp add: f(1))
  have n: "new = trace tr2" using x(2) by (simp add: f(2))
  have b1: "length (saved_paths (trace tr2)) = 2"
    using x(5) by (simp add: n f(4,5) u)
  have b2: "map fst evs = [1, 2]" using x(3) by (simp add: f(4,5) u)
  have b3: "marks (trace tr2) = expected_marks ''exp/run/checkpoints'' 0 evs"
    using x(4) by (simp only: n d f(3))
  have b4: "best_val_acc tr2 = fold max (map snd evs) 0"
    using x(6) by (simp only: f(3))
  from b1 b2 b3 b4 have b: "length (saved_paths (trace tr2)) = 2 \<and>
      (\<exists>evs. map fst evs = [1, 2] \<and>
         marks (trace tr2) = expected_marks ''exp/run/checkpoints'' 0 evs \<and>
         best_val_acc tr2 = fold max (map snd evs) 0)"
    by (intro conjI exI [of _ evs])
  have A: "\<exists>tr'. checkpoint_step example_trainer 1 50 = Inr tr' \<and> best_val_acc tr' = 50 \<and>
      saved_paths (trace tr') = [''exp/run/checkpoints/best.tar'']"
    using cs a by (intro exI [of _ tr'] conjI) (rule cs, rule conjunct1 [OF a], rule conjunct2 [OF a])
  have B: "train_model example_env example_trainer = Inr (tr2, ret) \<and>
      best_val_acc example_trainer \<le> best_val_acc tr2 \<and>
      marks (trace tr2) =
        [Evaluated 1 50, Saved ''exp/run/checkpoints/best.tar'',
         Evaluated 2 40, Saved ''exp/run/checkpoints/checkpoint.tar''] \<and>
      length (saved_paths (trace tr2)) = 2 \<and>
      (\<exists>evs. map fst evs = [1, 2] \<and>
         marks (trace tr2) = expected_marks ''exp/run/checkpoints'' 0 evs \<and>
         best_val_acc tr2 = fold max (map snd evs) 0)"
    by (intro conjI) (rule tm, rule 3, rule mk, rule conjunct1 [OF b], rule conjunct2 [OF b])
  from B have C: "\<exists>tr2 ret. train_model example_env example_trainer = Inr (tr2, ret) \<and>
      best_val_acc example_trainer \<le> best_val_acc tr2 \<and>
      marks (trace tr2) =
        [Evaluated 1 50, Saved ''exp/run/checkpoints/best.tar'',
         Evaluated 2 40, Saved ''exp/run/checkpoints/checkpoint.tar''] \<and>
      length (saved_paths (trace tr2)) = 2 \<and>
      (\<exists>evs. map fst evs = [1, 2] \<and>
         marks (trace tr2) = expected_marks ''exp/run/checkpoints'' 0 evs \<and>
         best_val_acc tr2 = fold max (map snd evs) 0)"
    by (rule_tac x = tr2 in exI, rule_tac x = ret in exI)
  show ?thesis
    by (intro conjI) (fact dry, fact A, fact C)
qed

subsection \<open>The loop over the epochs\<close>

lemma init_optimization_fresh:
  assumes "init_optimization a ev package = Inr (opt, se, bva, sch)"
    and "\<not> (truthy (resume a) \<and> \<not> evaluate a)"
  shows "opt = init_optimizer a \<and> se = 1 \<and> bva = 0"
  using assms
  by (cases package)
     (auto simp: init_optimization_def Let_def split: sum.splits)

text \<open>
  Claim C10. \<open>train_model\<close> runs the epochs of \<open>range(starting_epoch, args.epochs)\<close>,
  in order. A trainer built without a checkpoint to resume starts at epoch 1, so it runs
  \<open>args.epochs - 1\<close> epochs (none when \<open>args.epochs\<close> is below 1). When
  \<open>args.epochs \<le> starting_epoch\<close> no epoch runs and nothing is written, and the
  path of \<open>best.tar\<close> in the checkpoint directory is returned all the same unless
  \<open>args.dry_run\<close> is set.
\<close>

theorem train_model_epoch_range:
  "(train_model ev tr = Inr (tr', ret) \<longrightarrow>
      (\<exists>new. trace tr' = trace tr @ new \<and>
         trained_epochs new = py_range (starting_epoch tr) (epochs (self_args tr))) \<and>
      length (py_range (starting_epoch tr) (epochs (self_args tr))) =
        nat (epochs (self_args tr) - starting_epoch tr)) \<and>
   (Trainer_init a ev0 = (es, Inr tr) \<longrightarrow> \<not> truthy (resume a) \<longrightarrow>
      starting_epoch tr = 1 \<and>
      length (py_range (starting_epoch tr) (epochs (self_args tr))) = nat (epochs a - 1) \<and>
      (1 \<le> epochs a \<longrightarrow>
         int (length (py_range (starting_epoch tr) (epochs (self_args tr)))) = epochs a - 1)) \<and>
   (epochs (self_args tr) \<le> starting_epoch tr \<longrightarrow>
      py_range (starting_epoch tr) (epochs (self_args tr)) = [] \<and>
      train_model ev tr =
        (if dry_run (self_args tr) then Inr (tr, None)
         else case checkpoints_dir_path tr of
                None \<Rightarrow> Inl (AttributeError ''checkpoints_dir_path'')
              | Some d \<Rightarrow> Inr (tr, Some (path_join d ''best.tar'')))) \<and>
   (Trainer_init a ev0 = (es, Inr tr) \<longrightarrow> epochs a \<le> starting_epoch tr \<longrightarrow> \<not> dry_run a \<longrightarrow>
      train_model ev tr =
        Inr (tr, Some (path_join (path_join (output_dir_path tr) ''checkpoints'') ''best.tar'')))"
proof (intro conjI impI)
  assume "train_model ev tr = Inr (tr', ret)"
  then have "train_epochs ev (py_range (starting_epoch tr) (epochs (self_args tr))) tr = Inr tr'"
    by (auto simp: train_model_def split: sum.splits if_splits option.splits)
  from train_epochs_Inr [OF this]
  show "\<exists>new. trace tr' = trace tr @ new \<and>
         trained_epochs new = py_range (starting_epoch tr) (epochs (self_args tr))"
    by simp
next
  show "length (py_range (starting_epoch tr) (epochs (self_args tr))) =
        nat (epochs (self_args tr) - starting_epoch tr)"
    by (rule length_py_range)
next
  assume i: "Trainer_init a ev0 = (es, Inr tr)" and r: "\<not> truthy (resume a)"
  from Trainer_init_Inr [OF i] obtain package where
    o: "init_optimization a ev0 package =
          Inr (optimizer tr, starting_epoch tr, best_val_acc tr, self_scheduler tr)"
    and a: "self_args tr = a"
    by blast
  from init_optimization_fresh [OF o] r show s: "starting_epoch tr = 1" by simp
  show l: "length (py_range (starting_epoch tr) (epochs (self_args tr))) = nat (epochs a - 1)"
    by (simp add: length_py_range s a)
  assume "1 \<le> epochs a"
  then show "int (length (py_range (starting_epoch tr) (epochs (self_args tr)))) = epochs a - 1"
    by (simp add: l)
next
  assume le: "epochs (self_args tr) \<le> starting_epoch tr"
  then show e: "py_range (starting_epoch tr) (epochs (self_args tr)) = []"
    by (simp add: py_range_def)
  show "train_model ev tr =
        (if dry_run (self_args tr) then Inr (tr, None)
         else case checkpoints_dir_path tr of
                None \<Rightarrow> Inl (AttributeError ''checkpoints_dir_path'')
              | Some d \<Rightarrow> Inr (tr, Some (path_join d ''best.tar'')))"
    by (simp add: train_model_def e)
next
  assume i: "Trainer_init a ev0 = (es, Inr tr)" and le: "epochs a \<le> starting_epoch tr"
    and dry: "\<not> dry_run a"
  from Trainer_init_Inr [OF i] have
    a: "self_args tr = a"
    and c: "checkpoints_dir_path tr =
          (if \<not> dry_run a then Some (path_join (output_dir_path tr) ''checkpoints'') else None)"
    by blast+
  have e: "py_range (starting_epoch tr) (epochs a) = []"
    using le by (simp add: py_range_def)
  show "train_model ev tr =
        Inr (tr, Some (path_join (path_join (output_dir_path tr) ''checkpoints'') ''best.tar''))"
    using dry by (simp add: train_model_def e a c)
qed

lemmas init_defs = Trainer_init_def select_dataset_def extract_model_def setup_device_def
  resume_checkpoint_def init_optimization_def init_optimizer_def init_scheduler_def
  resume_optimizer_def resume_scheduler_def init_criterion_def truthy_def path_join_def
  example_args_def example_env_def Let_def

theorem train_model_epoch_range_witness:
  "(\<exists>es tr. Trainer_init example_args example_env = (es, Inr tr) \<and> starting_epoch tr = 1 \<and>
      length (py_range (starting_epoch tr) (epochs (self_args tr))) = 2) \<and>
   (\<exists>tr' ret. train_model example_env example_trainer = Inr (tr', ret) \<and>
      trained_epochs (trace tr') = [1, 2]) \<and>
   train_model example_env (example_trainer\<lparr>starting_epoch := 3\<rparr>) =
     Inr (example_trainer\<lparr>starting_epoch := 3\<rparr>, Some ''exp/run/checkpoints/best.tar'')"
proof -
  obtain es tr where i: "Trainer_init example_args example_env = (es, Inr tr)"
    by (simp add: init_defs)
  obtain tr' ret where tm: "train_model example_env example_trainer = Inr (tr', ret)"
    by (simp add: train_defs upto.simps)
  have r: "\<not> truthy (resume example_args)" "epochs example_args = 3"
    by (simp_all add: example_args_def truthy_def)
  have f: "trace example_trainer = []" "starting_epoch example_trainer = 1"
    "self_args example_trainer = example_args"
    by (simp_all add: example_trainer_def)
  have g: "epochs (self_args (example_trainer\<lparr>starting_epoch := 3\<rparr>))
             \<le> starting_epoch (example_trainer\<lparr>starting_epoch := 3\<rparr>)"
    "\<not> dry_run (self_args (example_trainer\<lparr>starting_epoch := 3\<rparr>))"
    "checkpoints_dir_path (example_trainer\<lparr>starting_epoch := 3\<rparr>) = Some ''exp/run/checkpoints''"
    by (simp_all add: example_trainer_def example_args_def)
  have p: "path_join ''exp/run/checkpoints'' ''best.tar'' = ''exp/run/checkpoints/best.tar''"
    by (simp add: path_join_def)
  have u: "py_range 1 3 = [1, 2]" by (simp add: py_range_def upto.simps)
  from train_model_epoch_range [where ev = example_env and tr = example_trainer and tr' = tr' and ret = ret]
  have 1: "\<exists>new. trace tr' = trace example_trainer @ new \<and>
             trained_epochs new = py_range (starting_epoch example_trainer)
                                    (epochs (self_args example_trainer))"
    using tm by blast
  from train_model_epoch_range [where tr = tr and a = example_args and ?ev0.0 = example_env and es = es]
  have 2: "starting_epoch tr = 1 \<and>
           length (py_range (starting_epoch tr) (epochs (self_args tr))) = nat (epochs example_args - 1)"
    using i r(1) by blast
  from train_model_epoch_range [where ev = example_env
      and tr = "example_trainer\<lparr>starting_epoch := 3\<rparr>"]
  have 3: "train_model example_env (example_trainer\<lparr>starting_epoch := 3\<rparr>) =
     Inr (example_trainer\<lparr>starting_epoch := 3\<rparr>, Some ''exp/run/checkpoints/best.tar'')"
    using g p by simp
  show ?thesis
    using 1 2 3 i tm by (auto simp: f r u)
qed

subsection \<open>Dataset selection and resumption\<close>

lemma resume_checkpoint_events:
  "resume_checkpoint a ev m = (ev3, r) \<Longrightarrow>
   filter is_build_dataset ev3 = [] \<and> filter is_mkdir ev3 = []"
  by (auto simp: resume_checkpoint_def split: option.splits sum.splits pval.splits if_splits)

lemma resume_checkpoint_Some:
  assumes "resume_checkpoint a ev m = (ev3, Inr (package, m'))"
    and "resume a = Some p" and "p \<noteq> []"
  shows "\<exists>pkg sd. package = Some pkg \<and> torch_load ev p = Inr pkg \<and>
           map_of pkg ''state_dict'' = Some (PState sd) \<and>
           load_state_dict ev m sd (strict a) = Inr m' \<and>
           ev3 = [TorchLoad p, LoadStateDict sd (strict a)]"
  using assms
  by (auto simp: resume_checkpoint_def split: option.splits sum.splits pval.splits)

lemma Trainer_init_returns:
  assumes "select_dataset (dataset a) = Inr (b, nc, ic)"
    and "extract_model a ev nc = Inr m"
    and "setup_device a ev = Inr (gs, dev)"
    and "resume_checkpoint a ev m = (ev3, Inr (package, m'))"
    and "init_optimization a ev package = Inr (opt, se, bva, sch)"
  shows "\<exists>es tr. Trainer_init a ev = (es, Inr tr) \<and> num_classes tr = nc \<and> in_channels tr = ic \<and>
           model tr = m' \<and>
           filter is_build_dataset es = [BuildDataset b True, BuildDataset b False]"
  using resume_checkpoint_events [OF assms(4)]
  by (simp add: Trainer_init_def Let_def assms)

lemma init_dataset_facts:
  assumes init: "Trainer_init a ev = (es, r)"
  shows "(\<forall>tr. r = Inr tr \<longrightarrow>
      (dataset a = ''CIFAR10'' \<and> num_classes tr = 10 \<and> in_channels tr = 3 \<or>
       dataset a = ''CIFAR100'' \<and> num_classes tr = 100 \<and> in_channels tr = 3 \<or>
       dataset a = ''MNIST'' \<and> num_classes tr = 10 \<and> in_channels tr = 1) \<and>
      filter is_build_dataset es =
        [BuildDataset (dataset a) True, BuildDataset (dataset a) False]) \<and>
   (dataset a \<noteq> ''CIFAR10'' \<and> dataset a \<noteq> ''CIFAR100'' \<and> dataset a \<noteq> ''MNIST'' \<longrightarrow>
      r = Inl (Exception (''Dataset not supported: '' @ dataset a)) \<and>
      filter is_build_dataset es = [])"
proof (intro conjI allI impI)
  fix tr assume "r = Inr tr"
  with init have i: "Trainer_init a ev = (es, Inr tr)" by simp
  from Trainer_init_Inr [OF i] obtain builder m ev3 package where
    s: "select_dataset (dataset a) = Inr (builder, num_classes tr, in_channels tr)"
    and rc: "resume_checkpoint a ev m = (ev3, Inr (package, model tr))"
    and es: "es = (if \<not> dry_run a \<and> \<not> truthy (resume a)
             then [Mkdir (output_dir_path tr), Mkdir (path_join (output_dir_path tr) ''checkpoints'')]
             else []) @ [BuildDataset builder True, BuildDataset builder False] @ ev3"
    by blast
  from s show "dataset a = ''CIFAR10'' \<and> num_classes tr = 10 \<and> in_channels tr = 3 \<or>
       dataset a = ''CIFAR100'' \<and> num_classes tr = 100 \<and> in_channels tr = 3 \<or>
       dataset a = ''MNIST'' \<and> num_classes tr = 10 \<and> in_channels tr = 1"
    by (simp add: select_dataset_def split: if_splits)
  from s have b: "builder = dataset a"
    by (simp add: select_dataset_def split: if_splits)
  show "filter is_build_dataset es =
        [BuildDataset (dataset a) True, BuildDataset (dataset a) False]"
    using resume_checkpoint_events [OF rc] by (simp add: es b)
next
  assume n: "dataset a \<noteq> ''CIFAR10'' \<and> dataset a \<noteq> ''CIFAR100'' \<and> dataset a \<noteq> ''MNIST''"
  then have s: "select_dataset (dataset a) = Inl (Exception (''Dataset not supported: '' @ dataset a))"
    by (simp add: select_dataset_def)
  from init
  show "r = Inl (Exception (''Dataset not supported: '' @ dataset a))"
    and "filter is_build_dataset es = []"
    by (auto simp: Trainer_init_def Let_def s)
qed

text \<open>
  Claim C6. \<open>__init__\<close> knows exactly three datasets. The selection accepts
  \<open>'CIFAR10'\<close> with 10 classes and 3 channels, \<open>'CIFAR100'\<close> with 100 classes and 3
  channels, and \<open>'MNIST'\<close> with 10 classes and 1 channel; when the selection accepts
  and the later steps of \<open>__init__\<close> return, \<open>__init__\<close> returns a trainer with these
  numbers, having built the two datasets with the builder selected. Whenever
  \<open>__init__\<close> returns, \<open>args.dataset\<close> is one of the three, with its numbers and
  its builder. For every other value it raises
  \<open>Exception("Dataset not supported: ...")\<close>, and no dataset has been built.
\<close>

theorem init_dataset_selection:
  "(select_dataset ''CIFAR10'' = Inr (''CIFAR10'', 10, 3) \<and>
    select_dataset ''CIFAR100'' = Inr (''CIFAR100'', 100, 3) \<and>
    select_dataset ''MNIST'' = Inr (''MNIST'', 10, 1)) \<and>
   (select_dataset (dataset a) = Inr (b, nc, ic) \<longrightarrow> extract_model a ev nc = Inr m \<longrightarrow>
    setup_device a ev = Inr (gs, dev) \<longrightarrow>
    resume_checkpoint a ev m = (ev3, Inr (package, m')) \<longrightarrow>
    init_optimization a ev package = Inr (opt, se, bva, sch) \<longrightarrow>
      (\<exists>es' tr'. Trainer_init a ev = (es', Inr tr') \<and> num_classes tr' = nc \<and>
         in_channels tr' = ic \<and>
         filter is_build_dataset es' = [BuildDataset b True, BuildDataset b False])) \<and>
   (Trainer_init a ev = (es, r) \<longrightarrow>
      (\<forall>tr. r = Inr tr \<longrightarrow>
         (dataset a = ''CIFAR10'' \<and> num_classes tr = 10 \<and> in_channels tr = 3 \<or>
          dataset a = ''CIFAR100'' \<and> num_classes tr = 100 \<and> in_channels tr = 3 \<or>
          dataset a = ''MNIST'' \<and> num_classes tr = 10 \<and> in_channels tr = 1) \<and>
         filter is_build_dataset es =
           [BuildDataset (dataset a) True, BuildDataset (dataset a) False]) \<and>
      (dataset a \<noteq> ''CIFAR10'' \<and> dataset a \<noteq> ''CIFAR100'' \<and> dataset a \<noteq> ''MNIST'' \<longrightarrow>
         r = Inl (Exception (''Dataset not supported: '' @ dataset a)) \<and>
         filter is_build_dataset es = []))"
proof (intro conjI)
  show "select_dataset ''CIFAR10'' = Inr (''CIFAR10'', 10, 3)"
    and "select_dataset ''CIFAR100'' = Inr (''CIFAR100'', 100, 3)"
    and "select_dataset ''MNIST'' = Inr (''MNIST'', 10, 1)"
    by (simp_all add: select_dataset_def)
next
  show "select_dataset (dataset a) = Inr (b, nc, ic) \<longrightarrow> extract_model a ev nc = Inr m \<longrightarrow>
    setup_device a ev = Inr (gs, dev) \<longrightarrow>
    resume_checkpoint a ev m = (ev3, Inr (package, m')) \<longrightarrow>
    init_optimization a ev package = Inr (opt, se, bva, sch) \<longrightarrow>
      (\<exists>es' tr'. Trainer_init a ev = (es', Inr tr') \<and> num_classes tr' = nc \<and>
         in_channels tr' = ic \<and>
         filter is_build_dataset es' = [BuildDataset b True, BuildDataset b False])"
  proof (intro impI)
    assume h: "select_dataset (dataset a) = Inr (b, nc, ic)" "extract_model a ev nc = Inr m"
      "setup_device a ev = Inr (gs, dev)" "resume_checkpoint a ev m = (ev3, Inr (package, m'))"
      "init_optimization a ev package = Inr (opt, se, bva, sch)"
    from Trainer_init_returns [OF h]
    show "\<exists>es' tr'. Trainer_init a ev = (es', Inr tr') \<and> num_classes tr' = nc \<and>
         in_channels tr' = ic \<and>
         filter is_build_dataset es' = [BuildDataset b True, BuildDataset b False]"
      by blast
  qed
next
  show "Trainer_init a ev = (es, r) \<longrightarrow>
      (\<forall>tr. r = Inr tr \<longrightarrow>
         (dataset a = ''CIFAR10'' \<and> num_classes tr = 10 \<and> in_channels tr = 3 \<or>
          dataset a = ''CIFAR100'' \<and> num_classes tr = 100 \<and> in_channels tr = 3 \<or>
          dataset a = ''MNIST'' \<and> num_classes tr = 10 \<and> in_channels tr = 1) \<and>
         filter is_build_dataset es =
           [BuildDataset (dataset a) True, BuildDataset (dataset a) False]) \<and>
      (dataset a \<noteq> ''CIFAR10'' \<and> dataset a \<noteq> ''CIFAR100'' \<and> dataset a \<noteq> ''MNIST'' \<longrightarrow>
         r = Inl (Exception (''Dataset not supported: '' @ dataset a)) \<and>
         filter is_build_dataset es = [])"
    by (intro impI) (rule init_dataset_facts)
qed

theorem init_dataset_selection_witness:
  "(\<exists>es tr. Trainer_init (example_args\<lparr>dataset := ''CIFAR10'', network := ''CNV_1W1A''\<rparr>)
               example_env = (es, Inr tr) \<and>
      num_classes tr = 10 \<and> in_channels tr = 3 \<and>
      filter is_build_dataset es =
        [BuildDataset ''CIFAR10'' True, BuildDataset ''CIFAR10'' False]) \<and>
   (\<exists>es tr. Trainer_init (example_args\<lparr>dataset := ''CIFAR100'', network := ''CNV_2W2A''\<rparr>)
               example_env = (es, Inr tr) \<and>
      num_classes tr = 100 \<and> in_channels tr = 3 \<and>
      filter is_build_dataset es =
        [BuildDataset ''CIFAR100'' True, BuildDataset ''CIFAR100'' False]) \<and>
   (\<exists>es tr. Trainer_init example_args example_env = (es, Inr tr) \<and>
      num_classes tr = 10 \<and> in_channels tr = 1 \<and>
      filter is_build_dataset es = [BuildDataset ''MNIST'' True, BuildDataset ''MNIST'' False]) \<and>
   (\<exists>es. Trainer_init (example_args\<lparr>dataset := ''SVHN''\<rparr>) example_env =
      (es, Inl (Exception ''Dataset not supported: SVHN'')) \<and>
      filter is_build_dataset es = [])"
proof -
  let ?a1 = "example_args\<lparr>dataset := ''CIFAR10'', network := ''CNV_1W1A''\<rparr>"
  let ?a2 = "example_args\<lparr>dataset := ''CIFAR100'', network := ''CNV_2W2A''\<rparr>"
  obtain es1 tr1 where i1: "Trainer_init ?a1 example_env = (es1, Inr tr1)"
    by (simp add: init_defs)
  obtain es2 tr2 where i2: "Trainer_init ?a2 example_env = (es2, Inr tr2)"
    by (simp add: init_defs)
  obtain es tr where i: "Trainer_init example_args example_env = (es, Inr tr)"
    by (simp add: init_defs)
  obtain es' r' where j: "Trainer_init (example_args\<lparr>dataset := ''SVHN''\<rparr>) example_env = (es', r')"
    by (cases "Trainer_init (example_args\<lparr>dataset := ''SVHN''\<rparr>) example_env")
  have d: "dataset example_args = ''MNIST''" "dataset ?a1 = ''CIFAR10''" "dataset ?a2 = ''CIFAR100''"
    "dataset (example_args\<lparr>dataset := ''SVHN''\<rparr>) = ''SVHN''"
    by (simp_all add: example_args_def)
  from init_dataset_selection [where a = ?a1 and ev = example_env and es = es1 and r = "Inr tr1"] i1
  have 1: "num_classes tr1 = 10 \<and> in_channels tr1 = 3 \<and>
           filter is_build_dataset es1 =
             [BuildDataset ''CIFAR10'' True, BuildDataset ''CIFAR10'' False]"
    by (simp add: d)
  from init_dataset_selection [where a = ?a2 and ev = example_env and es = es2 and r = "Inr tr2"] i2
  have 2: "num_classes tr2 = 100 \<and> in_channels tr2 = 3 \<and>
           filter is_build_dataset es2 =
             [BuildDataset ''CIFAR100'' True, BuildDataset ''CIFAR100'' False]"
    by (simp add: d)
  from init_dataset_selection [where a = example_args and ev = example_env and es = es
      and r = "Inr tr"] i
  have 3: "num_classes tr = 10 \<and> in_channels tr = 1 \<and>
           filter is_build_dataset es = [BuildDataset ''MNIST'' True, BuildDataset ''MNIST'' False]"
    by (simp add: d)
  from init_dataset_selection [where a = "example_args\<lparr>dataset := ''SVHN''\<rparr>"
      and ev = example_env and es = es' and r = r'] j
  have 4: "r' = Inl (Exception ''Dataset not supported: SVHN'') \<and> filter is_build_dataset es' = []"
    by (simp add: d)
  have A: "\<exists>es tr. Trainer_init ?a1 example_env = (es, Inr tr) \<and>
      num_classes tr = 10 \<and> in_channels tr = 3 \<and>
      filter is_build_dataset es =
        [BuildDataset ''CIFAR10'' True, BuildDataset ''CIFAR10'' False]"
    using i1 1 by (intro exI [of _ es1] exI [of _ tr1]) simp
  have B: "\<exists>es tr. Trainer_init ?a2 example_env = (es, Inr tr) \<and>
      num_classes tr = 100 \<and> in_channels tr = 3 \<and>
      filter is_build_dataset es =
        [BuildDataset ''CIFAR100'' True, BuildDataset ''CIFAR100'' False]"
    using i2 2 by (intro exI [of _ es2] exI [of _ tr2]) simp
  have C: "\<exists>es tr. Trainer_init example_args example_env = (es, Inr tr) \<and>
      num_classes tr = 10 \<and> in_channels tr = 1 \<and>
      filter is_build_dataset es = [BuildDataset ''MNIST'' True, BuildDataset ''MNIST'' False]"
    using i 3 by (intro exI [of _ es] exI [of _ tr]) simp
  have D: "\<exists>es. Trainer_init (example_args\<lparr>dataset := ''SVHN''\<rparr>) example_env =
      (es, Inl (Exception ''Dataset not supported: SVHN'')) \<and>
      filter is_build_dataset es = []"
    using j 4 by (intro exI [of _ es']) simp
  show ?thesis
    by (intro conjI) (fact A, fact B, fact C, fact D)
qed

lemma resume_optimizer_Inr:
  assumes "resume_optimizer pkg opt se bva = Inr (opt', se', bva')"
  shows "(case map_of pkg ''optim_dict'' of
            None \<Rightarrow> opt' = opt
          | Some v \<Rightarrow> \<exists>od. v = POptim od \<and> opt' = Some od) \<and>
         (case map_of pkg ''epoch'' of
            None \<Rightarrow> se' = se
          | Some v \<Rightarrow> v = PInt se') \<and>
         (case map_of pkg ''best_val_acc'' of
            None \<Rightarrow> bva' = bva
          | Some v \<Rightarrow> v = PFloat bva' \<or> (\<exists>i. v = PInt i \<and> bva' = of_int i))"
  using assms
  by (auto simp: resume_optimizer_def split: option.splits sum.splits pval.splits)

lemma init_optimization_resuming:
  assumes "init_optimization a ev (Some pkg) = Inr (opt, se, bva, sch)"
    and "truthy (resume a)" and "\<not> evaluate a"
  shows "resume_optimizer pkg (init_optimizer a) 1 0 = Inr (opt, se, bva)"
  using assms
  by (auto simp: init_optimization_def Let_def split: sum.splits)

lemma init_resume_facts:
  assumes init: "Trainer_init a ev = (es, Inr tr)" and res: "resume a = Some p" and ne: "p \<noteq> []"
  shows "output_dir_path tr = fst (path_split (fst (path_split p))) \<and>
    (\<forall>b c d. p = d @ ''/'' @ c @ ''/'' @ b \<and> CHR ''/'' \<notin> set b \<and> CHR ''/'' \<notin> set c \<and>
        c \<noteq> [] \<and> d \<noteq> [] \<and> last d \<noteq> CHR ''/'' \<longrightarrow> output_dir_path tr = d) \<and>
    filter is_mkdir es = [] \<and>
    (\<exists>pkg sd m.
       torch_load ev p = Inr pkg \<and> map_of pkg ''state_dict'' = Some (PState sd) \<and>
       extract_model a ev (num_classes tr) = Inr m \<and>
       load_state_dict ev m sd (strict a) = Inr (model tr) \<and>
       LoadStateDict sd (strict a) \<in> set es \<and>
       (\<not> evaluate a \<longrightarrow>
          (case map_of pkg ''optim_dict'' of
             None \<Rightarrow> optimizer tr = init_optimizer a
           | Some v \<Rightarrow> \<exists>od. v = POptim od \<and> optimizer tr = Some od) \<and>
          (case map_of pkg ''epoch'' of
             None \<Rightarrow> starting_epoch tr = 1
           | Some v \<Rightarrow> v = PInt (starting_epoch tr)) \<and>
          (case map_of pkg ''best_val_acc'' of
             None \<Rightarrow> best_val_acc tr = 0
           | Some v \<Rightarrow> v = PFloat (best_val_acc tr) \<or>
                       (\<exists>i. v = PInt i \<and> best_val_acc tr = of_int i))) \<and>
       (evaluate a \<longrightarrow>
          optimizer tr = init_optimizer a \<and> starting_epoch tr = 1 \<and> best_val_acc tr = 0))"
proof -
  have t: "truthy (resume a)" using res ne by (simp add: truthy_def)
  from Trainer_init_Inr [OF init] res ne obtain builder m ev3 package where
    out: "output_dir_path tr = fst (path_split (fst (path_split p)))"
    and em: "extract_model a ev (num_classes tr) = Inr m"
    and rc: "resume_checkpoint a ev m = (ev3, Inr (package, model tr))"
    and io: "init_optimization a ev package =
               Inr (optimizer tr, starting_epoch tr, best_val_acc tr, self_scheduler tr)"
    and es: "es = (if \<not> dry_run a \<and> \<not> truthy (resume a)
             then [Mkdir (output_dir_path tr), Mkdir (path_join (output_dir_path tr) ''checkpoints'')]
             else []) @ [BuildDataset builder True, BuildDataset builder False] @ ev3"
    by auto
  from resume_checkpoint_Some [OF rc res ne] obtain pkg sd where
    pk: "package = Some pkg" "torch_load ev p = Inr pkg"
        "map_of pkg ''state_dict'' = Some (PState sd)"
        "load_state_dict ev m sd (strict a) = Inr (model tr)"
        "ev3 = [TorchLoad p, LoadStateDict sd (strict a)]"
    by blast
  have gp: "\<forall>b c d. p = d @ ''/'' @ c @ ''/'' @ b \<and> CHR ''/'' \<notin> set b \<and> CHR ''/'' \<notin> set c \<and>
        c \<noteq> [] \<and> d \<noteq> [] \<and> last d \<noteq> CHR ''/'' \<longrightarrow> output_dir_path tr = d"
  proof (intro allI impI)
    fix b c d
    assume h: "p = d @ ''/'' @ c @ ''/'' @ b \<and> CHR ''/'' \<notin> set b \<and> CHR ''/'' \<notin> set c \<and>
        c \<noteq> [] \<and> d \<noteq> [] \<and> last d \<noteq> CHR ''/''"
    then have 1: "p = d @ ''/'' @ c @ ''/'' @ b" and 2: "CHR ''/'' \<notin> set b"
      and 3: "CHR ''/'' \<notin> set c" and 4: "c \<noteq> []" and 5: "d \<noteq> []"
      and 6: "last d \<noteq> CHR ''/''"
      by blast+
    show "output_dir_path tr = d"
      unfolding out 1 by (rule path_split_grandparent [OF 2 3 4 5 6])
  qed
  have mk: "filter is_mkdir es = []"
    using t by (simp add: es pk(5))
  have ld: "LoadStateDict sd (strict a) \<in> set es"
    by (simp add: es pk(5))
  have r1: "\<not> evaluate a \<longrightarrow>
          (case map_of pkg ''optim_dict'' of
             None \<Rightarrow> optimizer tr = init_optimizer a
           | Some v \<Rightarrow> \<exists>od. v = POptim od \<and> optimizer tr = Some od) \<and>
          (case map_of pkg ''epoch'' of
             None \<Rightarrow> starting_epoch tr = 1
           | Some v \<Rightarrow> v = PInt (starting_epoch tr)) \<and>
          (case map_of pkg ''best_val_acc'' of
             None \<Rightarrow> best_val_acc tr = 0
           | Some v \<Rightarrow> v = PFloat (best_val_acc tr) \<or>
                       (\<exists>i. v = PInt i \<and> best_val_acc tr = of_int i))"
  proof
    assume "\<not> evaluate a"
    from init_optimization_resuming [OF io [unfolded pk(1)] t this]
    show "(case map_of pkg ''optim_dict'' of
             None \<Rightarrow> optimizer tr = init_optimizer a
           | Some v \<Rightarrow> \<exists>od. v = POptim od \<and> optimizer tr = Some od) \<and>
          (case map_of pkg ''epoch'' of
             None \<Rightarrow> starting_epoch tr = 1
           | Some v \<Rightarrow> v = PInt (starting_epoch tr)) \<and>
          (case map_of pkg ''best_val_acc'' of
             None \<Rightarrow> best_val_acc tr = 0
           | Some v \<Rightarrow> v = PFloat (best_val_acc tr) \<or>
                       (\<exists>i. v = PInt i \<and> best_val_acc tr = of_int i))"
      by (rule resume_optimizer_Inr)
  qed
  have r2: "evaluate a \<longrightarrow>
          optimizer tr = init_optimizer a \<and> starting_epoch tr = 1 \<and> best_val_acc tr = 0"
    using init_optimization_fresh [OF io] by simp
  show ?thesis
    using out gp mk pk(2,3,4) em ld r1 r2 by blast
qed

lemma resume_optimizer_returns:
  assumes "\<forall>v. map_of pkg ''optim_dict'' = Some v \<longrightarrow> (\<exists>od. v = POptim od)"
    and "\<forall>v. map_of pkg ''epoch'' = Some v \<longrightarrow> (\<exists>e. v = PInt e)"
    and "\<forall>v. map_of pkg ''best_val_acc'' = Some v \<longrightarrow> (\<exists>x. v = PFloat x) \<or> (\<exists>i. v = PInt i)"
  shows "\<exists>opt' se' bva'. resume_optimizer pkg (Some o0) se bva = Inr (opt', se', bva')"
proof -
  obtain opt' where 1: "(case map_of pkg ''optim_dict'' of
              None \<Rightarrow> Inr (Some o0)
            | Some v \<Rightarrow>
                (case Some o0 of
                   None \<Rightarrow> Inl (AttributeError ''optimizer'')
                 | Some _ \<Rightarrow> (case v of POptim od \<Rightarrow> Inr (Some od) | _ \<Rightarrow> Inl TypeError))) =
           (Inr opt' :: error + optimizer_state option)"
    using assms(1) by (cases "map_of pkg ''optim_dict''") auto
  obtain se' where 2: "(case map_of pkg ''epoch'' of
                   None \<Rightarrow> Inr se
                 | Some (PInt e) \<Rightarrow> Inr e
                 | Some _ \<Rightarrow> Inl TypeError) = (Inr se' :: error + int)"
    using assms(2) by (cases "map_of pkg ''epoch''") auto
  obtain r where 3: "(case map_of pkg ''best_val_acc'' of
                  None \<Rightarrow> Inr (opt', se', bva)
                | Some (PFloat b) \<Rightarrow> Inr (opt', se', b)
                | Some (PInt b) \<Rightarrow> Inr (opt', se', of_int b)
                | Some _ \<Rightarrow> Inl TypeError) =
           (Inr r :: error + (optimizer_state option \<times> int \<times> real))"
    using assms(3) by (cases "map_of pkg ''best_val_acc''") auto
  have "resume_optimizer pkg (Some o0) se bva = Inr r"
    unfolding resume_optimizer_def 1 2 using 3 by simp
  then show ?thesis by (cases r) auto
qed

lemma init_optimization_returns:
  assumes "init_optimizer a = Some o0" and "scheduler a = ''FIXED''"
    and "\<forall>v. map_of pkg ''optim_dict'' = Some v \<longrightarrow> (\<exists>od. v = POptim od)"
    and "\<forall>v. map_of pkg ''epoch'' = Some v \<longrightarrow> (\<exists>e. v = PInt e)"
    and "\<forall>v. map_of pkg ''best_val_acc'' = Some v \<longrightarrow> (\<exists>x. v = PFloat x) \<or> (\<exists>i. v = PInt i)"
  shows "\<exists>opt se bva sch. init_optimization a ev (Some pkg) = Inr (opt, se, bva, sch)"
proof -
  from resume_optimizer_returns [OF assms(3,4,5)] obtain opt' se' bva' where
    r: "resume_optimizer pkg (Some o0) 1 0 = Inr (opt', se', bva')"
    by blast
  have s: "init_scheduler a ev x = Inr None" for x
    using assms(2) by (simp add: init_scheduler_def)
  show ?thesis
    by (simp add: init_optimization_def Let_def assms(1) s r resume_scheduler_def)
qed

lemma init_resume_returns:
  assumes "resume a = Some p" and "p \<noteq> []"
    and "select_dataset (dataset a) = Inr (b, nc, ic)"
    and "extract_model a ev nc = Inr m"
    and "setup_device a ev = Inr (gs, dev)"
    and "torch_load ev p = Inr pkg"
    and "map_of pkg ''state_dict'' = Some (PState sd)"
    and "load_state_dict ev m sd (strict a) = Inr m'"
    and "init_optimizer a = Some o0" and "scheduler a = ''FIXED''"
    and "\<forall>v. map_of pkg ''optim_dict'' = Some v \<longrightarrow> (\<exists>od. v = POptim od)"
    and "\<forall>v. map_of pkg ''epoch'' = Some v \<longrightarrow> (\<exists>e. v = PInt e)"
    and "\<forall>v. map_of pkg ''best_val_acc'' = Some v \<longrightarrow> (\<exists>x. v = PFloat x) \<or> (\<exists>i. v = PInt i)"
  shows "\<exists>es tr. Trainer_init a ev = (es, Inr tr) \<and> model tr = m'"
proof -
  have rc: "resume_checkpoint a ev m =
              ([TorchLoad p, LoadStateDict sd (strict a)], Inr (Some pkg, m'))"
    using assms(1,2,6,7,8) by (simp add: resume_checkpoint_def)
  from init_optimization_returns [OF assms(9,10,11,12,13)] obtain opt se bva sch where
    io: "init_optimization a ev (Some pkg) = Inr (opt, se, bva, sch)"
    by blast
  from Trainer_init_returns [OF assms(3,4,5) rc io] show ?thesis by blast
qed

text \<open>
  Claim C7. When \<open>args.resume\<close> is set and \<open>__init__\<close> returns, \<open>output_dir_path\<close>
  is the directory two levels above the resume path (\<open>d\<close> for a path \<open>d/c/b\<close>), no
  directory has been made, the \<open>'state_dict'\<close> of the checkpoint has been loaded into
  the network, and, unless \<open>args.evaluate\<close> is set, the optimizer state,
  \<open>starting_epoch\<close> and \<open>best_val_acc\<close> are those stored under \<open>'optim_dict'\<close>,
  \<open>'epoch'\<close> and \<open>'best_val_acc'\<close>, each when the key is present, and the initial
  ones (the fresh optimizer, 1 and 0) otherwise. And \<open>__init__\<close> does return, with the
  network loaded, when the dataset is selected, the network is extracted, the device is
  set up, the checkpoint is read and holds a \<open>'state_dict'\<close> that loads, the optimizer
  is one of the two kinds, the scheduler is \<open>'FIXED'\<close>, and the values under the three
  keys, where present, are an optimizer state, an integer and a number.
\<close>

theorem init_resume:
  "(Trainer_init a ev = (es, Inr tr) \<longrightarrow> resume a = Some p \<longrightarrow> p \<noteq> [] \<longrightarrow>
    output_dir_path tr = fst (path_split (fst (path_split p))) \<and>
    (\<forall>b c d. p = d @ ''/'' @ c @ ''/'' @ b \<and> CHR ''/'' \<notin> set b \<and> CHR ''/'' \<notin> set c \<and>
        c \<noteq> [] \<and> d \<noteq> [] \<and> last d \<noteq> CHR ''/'' \<longrightarrow> output_dir_path tr = d) \<and>
    filter is_mkdir es = [] \<and>
    (\<exists>pkg sd m.
       torch_load ev p = Inr pkg \<and> map_of pkg ''state_dict'' = Some (PState sd) \<and>
       extract_model a ev (num_classes tr) = Inr m \<and>
       load_state_dict ev m sd (strict a) = Inr (model tr) \<and>
       LoadStateDict sd (strict a) \<in> set es \<and>
       (\<not> evaluate a \<longrightarrow>
          (case map_of pkg ''optim_dict'' of
             None \<Rightarrow> optimizer tr = init_optimizer a
           | Some v \<Rightarrow> \<exists>od. v = POptim od \<and> optimizer tr = Some od) \<and>
          (case map_of pkg ''epoch'' of
             None \<Rightarrow> starting_epoch tr = 1
           | Some v \<Rightarrow> v = PInt (starting_epoch tr)) \<and>
          (case map_of pkg ''best_val_acc'' of
             None \<Rightarrow> best_val_acc tr = 0
           | Some v \<Rightarrow> v = PFloat (best_val_acc tr) \<or>
                       (\<exists>i. v = PInt i \<and> best_val_acc tr = of_int i))) \<and>
       (evaluate a \<longrightarrow>
          optimizer tr = init_optimizer a \<and> starting_epoch tr = 1 \<and> best_val_acc tr = 0))) \<and>
   (resume a = Some p \<longrightarrow> p \<noteq> [] \<longrightarrow>
    select_dataset (dataset a) = Inr (bd, nc, ic) \<longrightarrow> extract_model a ev nc = Inr m0 \<longrightarrow>
    setup_device a ev = Inr (gs, dev) \<longrightarrow> torch_load ev p = Inr pkg0 \<longrightarrow>
    map_of pkg0 ''state_dict'' = Some (PState sd0) \<longrightarrow>
    load_state_dict ev m0 sd0 (strict a) = Inr m1 \<longrightarrow>
    init_optimizer a = Some o0 \<longrightarrow> scheduler a = ''FIXED'' \<longrightarrow>
    (\<forall>v. map_of pkg0 ''optim_dict'' = Some v \<longrightarrow> (\<exists>od. v = POptim od)) \<longrightarrow>
    (\<forall>v. map_of pkg0 ''epoch'' = Some v \<longrightarrow> (\<exists>e. v = PInt e)) \<longrightarrow>
    (\<forall>v. map_of pkg0 ''best_val_acc'' = Some v \<longrightarrow> (\<exists>x. v = PFloat x) \<or> (\<exists>i. v = PInt i)) \<longrightarrow>
      (\<exists>es' tr'. Trainer_init a ev = (es', Inr tr') \<and> model tr' = m1 \<and>
         (\<not> evaluate a \<longrightarrow>
            (\<forall>od. map_of pkg0 ''optim_dict'' = Some (POptim od) \<longrightarrow> optimizer tr' = Some od) \<and>
            (\<forall>e. map_of pkg0 ''epoch'' = Some (PInt e) \<longrightarrow> starting_epoch tr' = e) \<and>
            (\<forall>x. map_of pkg0 ''best_val_acc'' = Some (PFloat x) \<longrightarrow> best_val_acc tr' = x))))"
proof (intro conjI impI)
  assume "Trainer_init a ev = (es, Inr tr)" "resume a = Some p" "p \<noteq> []"
  from init_resume_facts [OF this]
  show "output_dir_path tr = fst (path_split (fst (path_split p)))"
    and "\<forall>b c d. p = d @ ''/'' @ c @ ''/'' @ b \<and> CHR ''/'' \<notin> set b \<and> CHR ''/'' \<notin> set c \<and>
        c \<noteq> [] \<and> d \<noteq> [] \<and> last d \<noteq> CHR ''/'' \<longrightarrow> output_dir_path tr = d"
    and "filter is_mkdir es = []"
    and "\<exists>pkg sd m.
       torch_load ev p = Inr pkg \<and> map_of pkg ''state_dict'' = Some (PState sd) \<and>
       extract_model a ev (num_classes tr) = Inr m \<and>
       load_state_dict ev m sd (strict a) = Inr (model tr) \<and>
       LoadStateDict sd (strict a) \<in> set es \<and>
       (\<not> evaluate a \<longrightarrow>
          (case map_of pkg ''optim_dict'' of
             None \<Rightarrow> optimizer tr = init_optimizer a
           | Some v \<Rightarrow> \<exists>od. v = POptim od \<and> optimizer tr = Some od) \<and>
          (case map_of pkg ''epoch'' of
             None \<Rightarrow> starting_epoch tr = 1
           | Some v \<Rightarrow> v = PInt (starting_epoch tr)) \<and>
          (case map_of pkg ''best_val_acc'' of
             None \<Rightarrow> best_val_acc tr = 0
           | Some v \<Rightarrow> v = PFloat (best_val_acc tr) \<or>
                       (\<exists>i. v = PInt i \<and> best_val_acc tr = of_int i))) \<and>
       (evaluate a \<longrightarrow>
          optimizer tr = init_optimizer a \<and> starting_epoch tr = 1 \<and> best_val_acc tr = 0)"
    by blast+
next
  assume h: "resume a = Some p" "p \<noteq> []"
    "select_dataset (dataset a) = Inr (bd, nc, ic)" "extract_model a ev nc = Inr m0"
    "setup_device a ev = Inr (gs, dev)" "torch_load ev p = Inr pkg0"
    "map_of pkg0 ''state_dict'' = Some (PState sd0)"
    "load_state_dict ev m0 sd0 (strict a) = Inr m1"
    "init_optimizer a = Some o0" "scheduler a = ''FIXED''"
    "\<forall>v. map_of pkg0 ''optim_dict'' = Some v \<longrightarrow> (\<exists>od. v = POptim od)"
    "\<forall>v. map_of pkg0 ''epoch'' = Some v \<longrightarrow> (\<exists>e. v = PInt e)"
    "\<forall>v. map_of pkg0 ''best_val_acc'' = Some v \<longrightarrow> (\<exists>x. v = PFloat x) \<or> (\<exists>i. v = PInt i)"
  from init_resume_returns [OF h] obtain es' tr' where
    i: "Trainer_init a ev = (es', Inr tr')" and m: "model tr' = m1"
    by blast
  from init_resume_facts [OF i h(1,2)] obtain pkg where
    p: "torch_load ev p = Inr pkg"
    and f: "\<not> evaluate a \<longrightarrow>
          (case map_of pkg ''optim_dict'' of
             None \<Rightarrow> optimizer tr' = init_optimizer a
           | Some v \<Rightarrow> \<exists>od. v = POptim od \<and> optimizer tr' = Some od) \<and>
          (case map_of pkg ''epoch'' of
             None \<Rightarrow> starting_epoch tr' = 1
           | Some v \<Rightarrow> v = PInt (starting_epoch tr')) \<and>
          (case map_of pkg ''best_val_acc'' of
             None \<Rightarrow> best_val_acc tr' = 0
           | Some v \<Rightarrow> v = PFloat (best_val_acc tr') \<or>
                       (\<exists>i. v = PInt i \<and> best_val_acc tr' = of_int i))"
    by blast
  have e: "pkg = pkg0" using p h(6) by simp
  have "\<not> evaluate a \<longrightarrow>
            (\<forall>od. map_of pkg0 ''optim_dict'' = Some (POptim od) \<longrightarrow> optimizer tr' = Some od) \<and>
            (\<forall>e. map_of pkg0 ''epoch'' = Some (PInt e) \<longrightarrow> starting_epoch tr' = e) \<and>
            (\<forall>x. map_of pkg0 ''best_val_acc'' = Some (PFloat x) \<longrightarrow> best_val_acc tr' = x)"
    using f unfolding e by auto
  with i m
  show "\<exists>es' tr'. Trainer_init a ev = (es', Inr tr') \<and> model tr' = m1 \<and>
         (\<not> evaluate a \<longrightarrow>
            (\<forall>od. map_of pkg0 ''optim_dict'' = Some (POptim od) \<longrightarrow> optimizer tr' = Some od) \<and>
            (\<forall>e. map_of pkg0 ''epoch'' = Some (PInt e) \<longrightarrow> starting_epoch tr' = e) \<and>
            (\<forall>x. map_of pkg0 ''best_val_acc'' = Some (PFloat x) \<longrightarrow> best_val_acc tr' = x))"
    by (intro exI [of _ es'] exI [of _ tr'] conjI)
qed

theorem init_resume_witness:
  "(\<exists>es tr. Trainer_init (example_args\<lparr>resume := Some ''exp/run/checkpoints/best.tar''\<rparr>)
               example_env = (es, Inr tr) \<and>
      output_dir_path tr = ''exp/run'' \<and> filter is_mkdir es = [] \<and>
      model tr = [(''w'', [1, 1])] \<and>
      optimizer tr = Some \<lparr>opt_kind = ''ADAM'', opt_lr = 0.01, opt_state = [(''m'', [0.5])]\<rparr> \<and>
      starting_epoch tr = 2 \<and> best_val_acc tr = 90) \<and>
   (\<exists>es tr. Trainer_init (example_args\<lparr>resume := Some ''exp/run/checkpoints/net.tar''\<rparr>)
               example_env = (es, Inr tr) \<and>
      model tr = [(''w'', [1, 1])] \<and> optimizer tr = init_optimizer example_args \<and>
      starting_epoch tr = 1 \<and> best_val_acc tr = 0)"
proof -
  let ?a = "example_args\<lparr>resume := Some ''exp/run/checkpoints/best.tar''\<rparr>"
  let ?b = "example_args\<lparr>resume := Some ''exp/run/checkpoints/net.tar''\<rparr>"
  let ?pkg = "[(''state_dict'', PState [(''w'', [1, 1])]),
               (''optim_dict'',
                POptim \<lparr>opt_kind = ''ADAM'', opt_lr = 0.01, opt_state = [(''m'', [0.5])]\<rparr>),
               (''epoch'', PInt 2), (''best_val_acc'', PFloat 90)]"
  have r: "resume ?a = Some ''exp/run/checkpoints/best.tar''" by simp
  have ne: "''exp/run/checkpoints/best.tar'' \<noteq> []" by simp
  have ev: "\<not> evaluate ?a" "\<not> evaluate ?b" by (simp_all add: example_args_def)
  have sd: "select_dataset (dataset ?a) = Inr (''MNIST'', 10, 1)"
    by (simp add: select_dataset_def example_args_def)
  have em: "extract_model ?a example_env 10 = Inr [(''w'', [1, - 1])]"
    by (simp add: extract_model_def example_args_def example_env_def)
  have dv: "setup_device ?a example_env = Inr (None, Cpu)"
    by (simp add: setup_device_def example_args_def)
  have tl: "torch_load example_env ''exp/run/checkpoints/best.tar'' = Inr ?pkg"
    by (simp add: example_env_def)
  have st: "map_of ?pkg ''state_dict'' = Some (PState [(''w'', [1, 1])])" by simp
  have ls: "load_state_dict example_env m sd b = Inr sd" for m sd b
    by (simp add: example_env_def)
  have io: "init_optimizer ?a = Some \<lparr>opt_kind = ''ADAM'', opt_lr = 0.02, opt_state = []\<rparr>"
    by (simp add: init_optimizer_def example_args_def)
  have sc: "scheduler ?a = ''FIXED''" by (simp add: example_args_def)
  have w1: "\<forall>v. map_of ?pkg ''optim_dict'' = Some v \<longrightarrow> (\<exists>od. v = POptim od)" by simp
  have w2: "\<forall>v. map_of ?pkg ''epoch'' = Some v \<longrightarrow> (\<exists>e. v = PInt e)" by simp
  have w3: "\<forall>v. map_of ?pkg ''best_val_acc'' = Some v \<longrightarrow> (\<exists>x. v = PFloat x) \<or> (\<exists>i. v = PInt i)"
    by simp
  note th = init_resume [where a = ?a and ev = example_env
      and p = "''exp/run/checkpoints/best.tar''"]
  from th [THEN conjunct2, rule_format, OF r ne sd em dv tl st
      ls [of "[(''w'', [1, - 1])]" "[(''w'', [1, 1])]" "strict ?a"] io sc
      w1 [rule_format] w2 [rule_format] w3 [rule_format]]
  obtain es tr where
    i: "Trainer_init ?a example_env = (es, Inr tr)"
    and m: "model tr = [(''w'', [1, 1])]"
    and f: "\<not> evaluate ?a \<longrightarrow>
            (\<forall>od. map_of ?pkg ''optim_dict'' = Some (POptim od) \<longrightarrow> optimizer tr = Some od) \<and>
            (\<forall>e. map_of ?pkg ''epoch'' = Some (PInt e) \<longrightarrow> starting_epoch tr = e) \<and>
            (\<forall>x. map_of ?pkg ''best_val_acc'' = Some (PFloat x) \<longrightarrow> best_val_acc tr = x)"
    by blast
  from f ev(1) have op: "optimizer tr =
      Some \<lparr>opt_kind = ''ADAM'', opt_lr = 0.01, opt_state = [(''m'', [0.5])]\<rparr>"
    and se: "starting_epoch tr = 2" and bv: "best_val_acc tr = 90"
    by simp_all
  have sp: "''exp/run/checkpoints/best.tar'' = ''exp/run'' @ ''/'' @ ''checkpoints'' @ ''/'' @ ''best.tar'' \<and>
     CHR ''/'' \<notin> set ''best.tar'' \<and> CHR ''/'' \<notin> set ''checkpoints'' \<and>
     ''checkpoints'' \<noteq> [] \<and> ''exp/run'' \<noteq> [] \<and> last ''exp/run'' \<noteq> CHR ''/''"
    by simp
  note th1 = init_resume [where a = ?a and ev = example_env
      and p = "''exp/run/checkpoints/best.tar''" and es = es and tr = tr]
  from th1 [THEN conjunct1, rule_format, OF i r ne] have g: "(\<forall>b c d. ''exp/run/checkpoints/best.tar'' = d @ ''/'' @ c @ ''/'' @ b \<and>
        CHR ''/'' \<notin> set b \<and> CHR ''/'' \<notin> set c \<and>
        c \<noteq> [] \<and> d \<noteq> [] \<and> last d \<noteq> CHR ''/'' \<longrightarrow> output_dir_path tr = d)"
    and mk: "filter is_mkdir es = []"
    by blast+
  from g sp have o: "output_dir_path tr = ''exp/run''" by blast
  have A: "\<exists>es tr. Trainer_init ?a example_env = (es, Inr tr) \<and>
      output_dir_path tr = ''exp/run'' \<and> filter is_mkdir es = [] \<and>
      model tr = [(''w'', [1, 1])] \<and>
      optimizer tr = Some \<lparr>opt_kind = ''ADAM'', opt_lr = 0.01, opt_state = [(''m'', [0.5])]\<rparr> \<and>
      starting_epoch tr = 2 \<and> best_val_acc tr = 90"
    by (intro exI [of _ es] exI [of _ tr] conjI) (fact i, fact o, fact mk, fact m, fact op, fact se, fact bv)
  obtain es2 tr2 where i2: "Trainer_init ?b example_env = (es2, Inr tr2)"
    by (simp add: init_defs)
  have r2: "resume ?b = Some ''exp/run/checkpoints/net.tar''" by simp
  have ne2: "''exp/run/checkpoints/net.tar'' \<noteq> []" by simp
  have tl2: "torch_load example_env ''exp/run/checkpoints/net.tar'' =
               Inr [(''state_dict'', PState [(''w'', [1, 1])])]"
    by (simp add: example_env_def)
  have io2: "init_optimizer ?b = init_optimizer example_args"
    by (simp add: init_optimizer_def example_args_def)
  note th2 = init_resume [where a = ?b and ev = example_env
      and p = "''exp/run/checkpoints/net.tar''" and es = es2 and tr = tr2]
  from th2 [THEN conjunct1, rule_format, OF i2 r2 ne2] ev(2) obtain pkg sd m where
    h: "torch_load example_env ''exp/run/checkpoints/net.tar'' = Inr pkg"
       "map_of pkg ''state_dict'' = Some (PState sd)"
       "load_state_dict example_env m sd (strict ?b) = Inr (model tr2)"
       "(case map_of pkg ''optim_dict'' of
             None \<Rightarrow> optimizer tr2 = init_optimizer ?b
           | Some v \<Rightarrow> \<exists>od. v = POptim od \<and> optimizer tr2 = Some od)"
       "(case map_of pkg ''epoch'' of
             None \<Rightarrow> starting_epoch tr2 = 1
           | Some v \<Rightarrow> v = PInt (starting_epoch tr2))"
       "(case map_of pkg ''best_val_acc'' of
             None \<Rightarrow> best_val_acc tr2 = 0
           | Some v \<Rightarrow> v = PFloat (best_val_acc tr2) \<or>
                       (\<exists>i. v = PInt i \<and> best_val_acc tr2 = of_int i))"
    by blast
  from h(1) tl2 have pkg: "pkg = [(''state_dict'', PState [(''w'', [1, 1])])]" by simp
  from h(2) have sd2: "sd = [(''w'', [1, 1])]" by (simp add: pkg)
  from h(3) have m2: "model tr2 = [(''w'', [1, 1])]" by (simp add: ls sd2)
  from h(4) have op2: "optimizer tr2 = init_optimizer example_args" by (simp add: pkg io2)
  from h(5) have se2: "starting_epoch tr2 = 1" by (simp add: pkg)
  from h(6) have bv2: "best_val_acc tr2 = 0" by (simp add: pkg)
  have B: "\<exists>es tr. Trainer_init ?b example_env = (es, Inr tr) \<and>
      model tr = [(''w'', [1, 1])] \<and> optimizer tr = init_optimizer example_args \<and>
      starting_epoch tr = 1 \<and> best_val_acc tr = 0"
    by (intro exI [of _ es2] exI [of _ tr2] conjI) (fact i2, fact m2, fact op2, fact se2, fact bv2)
  show ?thesis
    by (intro conjI) (fact A, fact B)
qed

end
